theory Spec2Isabelle
  imports Complex_Main
begin

section \<open>Values shared by the mesh models\<close>

text \<open>
  The Python exceptions that \<^verbatim>\<open>meshmodel.py\<close> raises, with their messages. The
  \<^verbatim>\<open>IndexError\<close> and the second kind of \<^verbatim>\<open>ValueError\<close> are raised by numpy itself
  (an index past the end of an array, a negative dimension, an empty \<^verbatim>\<open>hstack\<close>).
\<close>

datatype error =
    ValueError string
  | IndexError string
  | AttributeError string
  | TypeError string

text \<open>A numpy array is its \<^verbatim>\<open>shape\<close> tuple and its elements in row-major order.\<close>

record 'a ndarray =
  shape :: "nat list"
  data :: "'a list"

text \<open>\<^verbatim>\<open>a[l][k]\<close> of a two-dimensional array.\<close>

definition at2 :: "'a ndarray \<Rightarrow> nat \<Rightarrow> nat \<Rightarrow> 'a" where
  "at2 a l k = data a ! (l * (shape a ! 1) + k)"

text \<open>\<^verbatim>\<open>np.zeros((r, c))\<close>.\<close>

definition np_zeros :: "nat \<Rightarrow> nat \<Rightarrow> real ndarray" where
  "np_zeros r c = \<lparr>shape = [r, c], data = replicate (r * c) 0\<rparr>"

text \<open>
  The end of the Python slice \<^verbatim>\<open>[:k]\<close> over a sequence of length \<open>n\<close>: a negative \<open>k\<close>
  counts from the end, and the result is clipped to \<open>0 .. n\<close>.
\<close>

definition slice_stop :: "int \<Rightarrow> nat \<Rightarrow> nat" where
  "slice_stop k n = (if k < 0 then nat (int n + k) else min (nat k) n)"

text \<open>\<^verbatim>\<open>a[layer][:k] = v\<close> on a two-dimensional array whose row \<open>layer\<close> exists.\<close>

definition assign_row_prefix :: "'a ndarray \<Rightarrow> nat \<Rightarrow> int \<Rightarrow> 'a \<Rightarrow> 'a ndarray" where
  "assign_row_prefix a layer k v =
     (let w = shape a ! 1; s = slice_stop k w
      in a\<lparr>data := take (layer * w) (data a) @ replicate s v @ drop (layer * w + s) (data a)\<rparr>)"

text \<open>
  Element-wise product \<^verbatim>\<open>a * b\<close>. Every call site of \<^verbatim>\<open>meshmodel.py\<close> multiplies two
  arrays of one shape (the shapes are compared first, or both are built with the shape
  \<open>(L, N // 2)\<close>), so broadcasting never happens.
\<close>

definition ndarray_mul :: "real ndarray \<Rightarrow> real ndarray \<Rightarrow> real ndarray" where
  "ndarray_mul a b = \<lparr>shape = shape a, data = map2 (*) (data a) (data b)\<rparr>"

section \<open>MeshModel\<close>

text \<open>
  \<^verbatim>\<open>bs_error\<close> is a float or an int, an ndarray, a tuple, or a value of any other type.
  A tuple has any number of elements, and an element is an ndarray or a value that has no
  \<^verbatim>\<open>shape\<close> (a float, say). The phase initialisers are a name or an ndarray, alone or in a
  tuple with a function; the function is stored and never called in this module, so it is
  an opaque handle here.
\<close>

datatype tuple_item = ItemArray "real ndarray" | ItemOther

datatype bs_error =
    BsScalar real
  | BsArray "real ndarray"
  | BsTuple "tuple_item list"
  | BsOther

datatype phase_fn = PhaseFn nat

datatype phase_init = InitName string | InitArray "real ndarray"

datatype phase_arg = Plain phase_init | WithFn phase_init phase_fn

fun phase_split :: "phase_arg \<Rightarrow> phase_init \<times> phase_fn option" where
  "phase_split (Plain i) = (i, None)"
| "phase_split (WithFn i f) = (i, Some f)"

record mesh_model =
  units :: nat
  num_layers :: nat
  perm_idx :: "int ndarray"
  num_tunable :: "int list"
  hadamard :: bool
  bs_error :: bs_error
  testing :: bool
  use_different_errors :: bool
  mask :: "real ndarray"
  theta_init :: phase_init
  theta_fn :: "phase_fn option"
  phi_init :: phase_init
  phi_fn :: "phase_fn option"
  gamma_init :: phase_init
  gamma_fn :: "phase_fn option"
  basis :: string

text \<open>The keyword arguments of \<^verbatim>\<open>MeshModel.__init__\<close>.\<close>

record mesh_kwargs =
  kw_hadamard :: bool
  kw_bs_error :: bs_error
  kw_testing :: bool
  kw_use_different_errors :: bool
  kw_theta_init :: phase_arg
  kw_phi_init :: phase_arg
  kw_gamma_init :: phase_arg
  kw_basis :: string

text \<open>
  The loop \<^verbatim>\<open>for layer in range(num_layers): mask[layer][:int(num_tunable[layer])] = 1\<close>.
  Reading \<^verbatim>\<open>num_tunable[layer]\<close> past the end of the array raises \<^verbatim>\<open>IndexError\<close>.
\<close>

fun build_mask :: "int list \<Rightarrow> nat list \<Rightarrow> real ndarray \<Rightarrow> error + real ndarray" where
  "build_mask nt [] m = Inr m"
| "build_mask nt (layer # layers) m =
     (if layer < length nt
      then build_mask nt layers (assign_row_prefix m layer (nt ! layer) 1)
      else Inl (IndexError ''index is out of bounds for axis 0''))"

text \<open>
  \<^verbatim>\<open>MeshModel.__init__\<close>. \<open>units\<close> and \<open>num_layers\<close> are read from the shape of
  \<^verbatim>\<open>perm_idx\<close>: an array of fewer than two dimensions has no \<^verbatim>\<open>shape[1]\<close>, and an array
  of no rows gives \<open>num_layers = -1\<close>, which the first array creation refuses. A missing
  \<^verbatim>\<open>num_tunable\<close> is \<open>units // 2\<close> in every layer. The two validity checks come after the
  loop that fills the mask.
\<close>

definition MeshModel_init ::
  "int ndarray \<Rightarrow> int list option \<Rightarrow> mesh_kwargs \<Rightarrow> error + mesh_model" where
  "MeshModel_init p nt_arg kw =
     (case shape p of
        r # c # _ \<Rightarrow>
          if r = 0 then Inl (ValueError ''negative dimensions are not allowed'')
          else
            let n = c;
                l = r - 1;
                nt = (case nt_arg of Some a \<Rightarrow> a | None \<Rightarrow> replicate l (int (n div 2)))
            in (case build_mask nt [0..<l] (np_zeros l (n div 2)) of
                  Inl e \<Rightarrow> Inl e
                | Inr m \<Rightarrow>
                    if length nt \<noteq> l
                    then Inl (ValueError ''num_mzis, perm_idx num_layers mismatch.'')
                    else if n < 2
                    then Inl (ValueError ''units must be at least 2.'')
                    else Inr \<lparr>units = n, num_layers = l, perm_idx = p, num_tunable = nt,
                      hadamard = kw_hadamard kw, bs_error = kw_bs_error kw,
                      testing = kw_testing kw,
                      use_different_errors = kw_use_different_errors kw,
                      mask = m,
                      theta_init = fst (phase_split (kw_theta_init kw)),
                      theta_fn = snd (phase_split (kw_theta_init kw)),
                      phi_init = fst (phase_split (kw_phi_init kw)),
                      phi_fn = snd (phase_split (kw_phi_init kw)),
                      gamma_init = fst (phase_split (kw_gamma_init kw)),
                      gamma_fn = snd (phase_split (kw_gamma_init kw)),
                      basis = kw_basis kw\<rparr>)
      | _ \<Rightarrow> Inl (IndexError ''tuple index out of range''))"

subsection \<open>The process-wide random source and the configuration constants\<close>

text \<open>
  \<^verbatim>\<open>np.random\<close> is a parameter: \<open>seed\<close> is the state \<^verbatim>\<open>np.random.seed(s)\<close> installs (it
  depends on \<open>s\<close> only), and \<open>gauss\<close> draws one standard normal sample and returns the
  next state. \<^verbatim>\<open>BLOCH\<close> and \<^verbatim>\<open>TEST_SEED\<close> come from \<^verbatim>\<open>config.py\<close>, which is a
  parameter as well.
\<close>

record 'g np_random =
  seed :: "int \<Rightarrow> 'g"
  gauss :: "'g \<Rightarrow> real \<times> 'g"

record config =
  BLOCH :: string
  TEST_SEED :: int

fun draws :: "('g \<Rightarrow> real \<times> 'g) \<Rightarrow> nat \<Rightarrow> 'g \<Rightarrow> real list \<times> 'g" where
  "draws f 0 g = ([], g)"
| "draws f (Suc n) g =
     (case f g of (x, g') \<Rightarrow> (case draws f n g' of (xs, g'') \<Rightarrow> (x # xs, g'')))"

text \<open>\<^verbatim>\<open>np.random.randn(d0, d1)\<close>: \<open>d0 * d1\<close> samples, drawn in row-major order.\<close>

definition randn :: "'g np_random \<Rightarrow> nat \<Rightarrow> nat \<Rightarrow> 'g \<Rightarrow> real ndarray \<times> 'g" where
  "randn np d0 d1 g =
     (case draws (gauss np) (d0 * d1) g of (xs, g') \<Rightarrow> (\<lparr>shape = [d0, d1], data = xs\<rparr>, g'))"

text \<open>Element-wise arithmetic of an array with a scalar, and \<^verbatim>\<open>np.cos\<close>, \<^verbatim>\<open>np.sin\<close>.\<close>

definition ndarray_map :: "(real \<Rightarrow> real) \<Rightarrow> real ndarray \<Rightarrow> real ndarray" where
  "ndarray_map f a = \<lparr>shape = shape a, data = map f (data a)\<rparr>"

definition times_scalar :: "real ndarray \<Rightarrow> real \<Rightarrow> real ndarray" where
  "times_scalar a x = ndarray_map (\<lambda>v. v * x) a"

definition scalar_times :: "real \<Rightarrow> real ndarray \<Rightarrow> real ndarray" where
  "scalar_times x a = ndarray_map (\<lambda>v. x * v) a"

definition scalar_plus :: "real \<Rightarrow> real ndarray \<Rightarrow> real ndarray" where
  "scalar_plus x a = ndarray_map (\<lambda>v. x + v) a"

definition np_cos :: "real ndarray \<Rightarrow> real ndarray" where
  "np_cos a = ndarray_map cos a"

definition np_sin :: "real ndarray \<Rightarrow> real ndarray" where
  "np_sin a = ndarray_map sin a"

subsection \<open>The accessors\<close>

text \<open>
  An accessor runs on the object and the process-wide random source, and leaves both
  behind: the state of a call is the pair of them.
\<close>

record 'g process =
  this :: mesh_model
  random_state :: "'g"

text \<open>
  \<^verbatim>\<open>init\<close>. The initialisers are built by \<^verbatim>\<open>get_initializer\<close> and \<^verbatim>\<open>PhaseInitializer\<close> of
  \<^verbatim>\<open>initializers.py\<close>; an initialiser is opaque here, so it is the call that builds it.
\<close>

datatype initializer =
    GetInitializer nat nat string bool bool
  | PhaseInitializer "real ndarray" nat

fun resolve_init :: "mesh_model \<Rightarrow> phase_init \<Rightarrow> initializer" where
  "resolve_init m (InitName s) = GetInitializer (units m) (num_layers m) s (hadamard m) (testing m)"
| "resolve_init m (InitArray a) = PhaseInitializer a (units m)"

definition init :: "'g process \<Rightarrow> (initializer \<times> initializer \<times> initializer) \<times> 'g process" where
  "init s =
     ((resolve_init (this s) (theta_init (this s)),
       resolve_init (this s) (phi_init (this s)),
       resolve_init (this s) (gamma_init (this s))), s)"

text \<open>
  The tuple branch of \<^verbatim>\<open>mzi_error_matrices\<close>, in the order in which Python evaluates it:
  \<^verbatim>\<open>bs_error[0].shape != mask.shape or bs_error[1].shape != mask.shape\<close> reads the first
  element (\<^verbatim>\<open>IndexError\<close> on an empty tuple, \<^verbatim>\<open>AttributeError\<close> on an element without a
  shape), stops at a first shape that differs, and reads the second element only
  otherwise; the test raises the shape-mismatch error; then \<^verbatim>\<open>e_l, e_r = bs_error\<close> unpacks
  the tuple, which raises \<^verbatim>\<open>ValueError\<close> on a tuple of more than two elements. The result
  is the pair before it is multiplied with the mask.
\<close>

definition tuple_errors ::
  "tuple_item list \<Rightarrow> nat list \<Rightarrow> error + real ndarray \<times> real ndarray" where
  "tuple_errors items mask_shape =
     (case items of
        [] \<Rightarrow> Inl (IndexError ''tuple index out of range'')
      | ItemOther # _ \<Rightarrow> Inl (AttributeError ''object has no attribute shape'')
      | ItemArray a # rest \<Rightarrow>
          if shape a \<noteq> mask_shape
          then Inl (AttributeError ''bs_error.shape and mask.shape should be the same.'')
          else
            (case rest of
               [] \<Rightarrow> Inl (IndexError ''tuple index out of range'')
             | ItemOther # _ \<Rightarrow> Inl (AttributeError ''object has no attribute shape'')
             | ItemArray b # others \<Rightarrow>
                 if shape b \<noteq> mask_shape
                 then Inl (AttributeError ''bs_error.shape and mask.shape should be the same.'')
                 else if others \<noteq> []
                 then Inl (ValueError ''too many values to unpack (expected 2)'')
                 else Inr (a, b)))"

text \<open>
  \<^verbatim>\<open>mzi_error_matrices\<close>. The reseeding under \<^verbatim>\<open>testing\<close> comes first, before the type of
  \<^verbatim>\<open>bs_error\<close> is looked at. \<^verbatim>\<open>self.mask\<close> is never \<^verbatim>\<open>None\<close> after \<^verbatim>\<open>__init__\<close>, so
  \<^verbatim>\<open>mask\<close> is \<^verbatim>\<open>self.mask\<close>.
\<close>

definition mzi_error_matrices ::
  "'g np_random \<Rightarrow> config \<Rightarrow> 'g process \<Rightarrow>
     (error + real ndarray \<times> real ndarray) \<times> 'g process" where
  "mzi_error_matrices np cfg s =
     (let self = this s;
          g1 = (if testing self then seed np (TEST_SEED cfg) else random_state s);
          msk = mask self
      in case bs_error self of
           BsScalar x \<Rightarrow>
             (case randn np (num_layers self) (units self div 2) g1 of
                (z_l, g2) \<Rightarrow>
                  let e_l = times_scalar z_l x
                  in if use_different_errors self
                     then
                       let g3 = (if testing self then seed np (TEST_SEED cfg + 1) else g2)
                       in (case randn np (num_layers self) (units self div 2) g3 of
                             (z_r, g4) \<Rightarrow>
                               let e_r = times_scalar z_r x
                               in (Inr (ndarray_mul e_l msk, ndarray_mul e_r msk),
                                   s\<lparr>random_state := g4\<rparr>))
                     else (Inr (ndarray_mul e_l msk, ndarray_mul e_l msk),
                           s\<lparr>random_state := g2\<rparr>))
         | BsArray a \<Rightarrow>
             if shape a \<noteq> shape msk
             then (Inl (AttributeError ''bs_error.shape and mask.shape should be the same.''),
                   s\<lparr>random_state := g1\<rparr>)
             else (Inr (ndarray_mul a msk, ndarray_mul a msk), s\<lparr>random_state := g1\<rparr>)
         | BsTuple items \<Rightarrow>
             (case tuple_errors items (shape msk) of
                Inl e \<Rightarrow> (Inl e, s\<lparr>random_state := g1\<rparr>)
              | Inr (a, b) \<Rightarrow>
                  (Inr (ndarray_mul a msk, ndarray_mul b msk), s\<lparr>random_state := g1\<rparr>))
         | BsOther \<Rightarrow>
             (Inl (TypeError ''bs_error must be float, ndarray or (ndarray, ndarray).''),
              s\<lparr>random_state := g1\<rparr>))"

text \<open>
  \<^verbatim>\<open>mzi_error_tensors\<close>. \<^verbatim>\<open>to_stripe_array\<close> of \<^verbatim>\<open>helpers.py\<close> is the parameter \<open>stripe\<close>.
  The four arrays are computed in the order \<open>cc, cs, sc, ss\<close> and returned in the order
  \<open>ss, cs, sc, cc\<close>.
\<close>

definition mzi_error_tensors ::
  "(real ndarray \<Rightarrow> nat \<Rightarrow> real ndarray) \<Rightarrow> 'g np_random \<Rightarrow> config \<Rightarrow> 'g process \<Rightarrow>
     (error + real ndarray \<times> real ndarray \<times> real ndarray \<times> real ndarray) \<times> 'g process" where
  "mzi_error_tensors stripe np cfg s =
     (case mzi_error_matrices np cfg s of
        (Inl e, s') \<Rightarrow> (Inl e, s')
      | (Inr (e_l, e_r), s') \<Rightarrow>
          let n = units (this s');
              cc = scalar_times 2 (stripe (ndarray_mul (np_cos (scalar_plus (pi / 4) e_l))
                                                       (np_cos (scalar_plus (pi / 4) e_r))) n);
              cs = scalar_times 2 (stripe (ndarray_mul (np_cos (scalar_plus (pi / 4) e_l))
                                                       (np_sin (scalar_plus (pi / 4) e_r))) n);
              sc = scalar_times 2 (stripe (ndarray_mul (np_sin (scalar_plus (pi / 4) e_l))
                                                       (np_cos (scalar_plus (pi / 4) e_r))) n);
              ss = scalar_times 2 (stripe (ndarray_mul (np_sin (scalar_plus (pi / 4) e_l))
                                                       (np_sin (scalar_plus (pi / 4) e_r))) n)
          in (Inr (ss, cs, sc, cc), s'))"

section \<open>The topology variants\<close>

text \<open>
  The functions of \<^verbatim>\<open>helpers.py\<close> that the variants call are parameters. Each may raise,
  so each returns an error or its value.
\<close>

record helpers =
  grid_permutation :: "int \<Rightarrow> int \<Rightarrow> error + int ndarray"
  prm_permutation :: "int \<Rightarrow> int list \<Rightarrow> int list \<Rightarrow> bool \<Rightarrow> error + int ndarray"
  get_efficient_coarse_grain_block_sizes :: "int \<Rightarrow> int \<Rightarrow> error + int list \<times> int list"
  get_default_coarse_grain_block_sizes :: "int \<Rightarrow> error + int list \<times> int list"

text \<open>
  \<^verbatim>\<open>np.ones((n,))\<close>, which refuses a negative \<open>n\<close>. The ones are floats that hold whole
  numbers; they are integers here, and \<^verbatim>\<open>//\<close> is the floor division of both.
\<close>

definition np_ones :: "int \<Rightarrow> error + int list" where
  "np_ones n =
     (if n < 0 then Inl (ValueError ''negative dimensions are not allowed'')
      else Inr (replicate (nat n) 1))"

text \<open>\<^verbatim>\<open>a[1::2] = v\<close> on a one-dimensional array.\<close>

fun assign_odd :: "'a list \<Rightarrow> 'a \<Rightarrow> 'a list" where
  "assign_odd (x # y # xs) v = x # v # assign_odd xs v"
| "assign_odd xs v = xs"

text \<open>
  The two ways in which a count becomes an \<^verbatim>\<open>int32\<close>. A value from \<open>-2^31\<close> to
  \<open>2^31 - 1\<close> is kept by both. \<^verbatim>\<open>.astype(np.int32)\<close> converts a float: for a float outside
  the range numpy leaves the result to the platform, and x86-64 gives \<open>-2^31\<close>. The store
  of a Python integer into an \<^verbatim>\<open>int32\<close> array keeps the low 32 bits of a value outside
  the range (numpy before 2.0; later releases refuse the value).
\<close>

definition int32_range :: "int \<Rightarrow> bool" where
  "int32_range x = (- 2147483648 \<le> x \<and> x \<le> 2147483647)"

definition astype_int32 :: "int \<Rightarrow> int" where
  "astype_int32 x = (if int32_range x then x else - 2147483648)"

definition store_int32 :: "int \<Rightarrow> int" where
  "store_int32 x = (x + 2147483648) mod 4294967296 - 2147483648"

text \<open>
  The tunable counts of \<open>n\<close> rectangular layers:
  \<^verbatim>\<open>num_mzis = (np.ones((n,)) * units // 2).astype(np.int32); num_mzis[1::2] = (units - 1) // 2\<close>.
\<close>

definition rect_num_mzis :: "int \<Rightarrow> int \<Rightarrow> error + int list" where
  "rect_num_mzis units_arg n =
     (case np_ones n of
        Inl e \<Rightarrow> Inl e
      | Inr ones \<Rightarrow>
          Inr (assign_odd (map (\<lambda>x. astype_int32 (x * units_arg div 2)) ones)
                 (store_int32 ((units_arg - 1) div 2))))"

text \<open>The keyword arguments of the rectangular and the triangular mesh.\<close>

record grid_kwargs =
  gk_hadamard :: bool
  gk_bs_error :: bs_error
  gk_basis :: string
  gk_theta_init :: phase_arg
  gk_phi_init :: phase_arg
  gk_gamma_init :: phase_arg

definition grid_mesh_kwargs :: "grid_kwargs \<Rightarrow> mesh_kwargs" where
  "grid_mesh_kwargs kw =
     \<lparr>kw_hadamard = gk_hadamard kw, kw_bs_error = gk_bs_error kw, kw_testing = False,
      kw_use_different_errors = False, kw_theta_init = gk_theta_init kw,
      kw_phi_init = gk_phi_init kw, kw_gamma_init = gk_gamma_init kw,
      kw_basis = gk_basis kw\<rparr>"

text \<open>
  \<^verbatim>\<open>RectangularMeshModel.__init__\<close>. \<^verbatim>\<open>num_layers if num_layers else units\<close> takes
  \<^verbatim>\<open>units\<close> for \<^verbatim>\<open>None\<close> and for \<open>0\<close>.
\<close>

definition RectangularMeshModel_init ::
  "helpers \<Rightarrow> int \<Rightarrow> int option \<Rightarrow> grid_kwargs \<Rightarrow> error + mesh_model" where
  "RectangularMeshModel_init h units_arg num_layers_arg kw =
     (let l = (case num_layers_arg of
                 None \<Rightarrow> units_arg
               | Some n \<Rightarrow> if n \<noteq> 0 then n else units_arg)
      in case grid_permutation h units_arg l of
           Inl e \<Rightarrow> Inl e
         | Inr p \<Rightarrow>
             (case rect_num_mzis units_arg l of
                Inl e \<Rightarrow> Inl e
              | Inr num_mzis \<Rightarrow> MeshModel_init p (Some num_mzis) (grid_mesh_kwargs kw)))"

text \<open>
  \<^verbatim>\<open>np.arange(start, stop, step)\<close> over the integers, for a step that is not zero:
  \<open>ceil((stop - start) / step)\<close> elements, none when that is negative.
\<close>

definition np_arange :: "int \<Rightarrow> int \<Rightarrow> int \<Rightarrow> int list" where
  "np_arange start stop step =
     (let n = (if 0 < step then (stop - start + step - 1) div step
               else (start - stop - step - 1) div (- step))
      in map (\<lambda>i. start + int i * step) [0..<nat n])"

text \<open>
  \<^verbatim>\<open>TriangularMeshModel.__init__\<close>, with
  \<^verbatim>\<open>num_mzis = ((np.hstack([np.arange(1, units), np.arange(units - 2, 0, -1)]) + 1) // 2)\<close>.
  Its entries are at most \<open>units div 2\<close>, and a grid permutation of \<open>2 * units - 2\<close> rows of
  \<open>units\<close> entries exists only for \<open>units\<close> far below \<open>2^32\<close>, so the conversion
  \<^verbatim>\<open>.astype(np.int32)\<close> that follows changes no entry and is left out.
\<close>

definition tri_num_mzis :: "int \<Rightarrow> int list" where
  "tri_num_mzis units_arg =
     map (\<lambda>v. (v + 1) div 2) (np_arange 1 units_arg 1 @ np_arange (units_arg - 2) 0 (- 1))"

definition TriangularMeshModel_init :: "helpers \<Rightarrow> int \<Rightarrow> grid_kwargs \<Rightarrow> error + mesh_model" where
  "TriangularMeshModel_init h units_arg kw =
     (case grid_permutation h units_arg (2 * units_arg - 3) of
        Inl e \<Rightarrow> Inl e
      | Inr p \<Rightarrow> MeshModel_init p (Some (tri_num_mzis units_arg)) (grid_mesh_kwargs kw))"

text \<open>
  \<^verbatim>\<open>PermutingRectangularMeshModel.__init__\<close>. The block sizes and the sampling frequencies
  are resolved first; the explicit lists are taken when neither is \<^verbatim>\<open>None\<close>.
\<close>

definition prm_block_sizes ::
  "helpers \<Rightarrow> int \<Rightarrow> int option \<Rightarrow> int list option \<Rightarrow> int list option \<Rightarrow>
     error + int list \<times> int list" where
  "prm_block_sizes h units_arg tunable_layers_per_block num_tunable_layers_list sampling =
     (case tunable_layers_per_block of
        Some t \<Rightarrow> get_efficient_coarse_grain_block_sizes h units_arg t
      | None \<Rightarrow>
          (case sampling of
             None \<Rightarrow> get_default_coarse_grain_block_sizes h units_arg
           | Some sf \<Rightarrow>
               (case num_tunable_layers_list of
                  None \<Rightarrow> get_default_coarse_grain_block_sizes h units_arg
                | Some bs \<Rightarrow> Inr (bs, sf))))"

text \<open>
  The loop over the blocks, which appends the tunable counts of each block, and
  \<^verbatim>\<open>np.hstack\<close>, which refuses an empty list.
\<close>

fun prm_num_mzis_list :: "int \<Rightarrow> int list \<Rightarrow> error + int list list" where
  "prm_num_mzis_list units_arg [] = Inr []"
| "prm_num_mzis_list units_arg (block_size # rest) =
     (case rect_num_mzis units_arg block_size of
        Inl e \<Rightarrow> Inl e
      | Inr x \<Rightarrow>
          (case prm_num_mzis_list units_arg rest of
             Inl e \<Rightarrow> Inl e
           | Inr xs \<Rightarrow> Inr (x # xs)))"

definition np_hstack :: "int list list \<Rightarrow> error + int list" where
  "np_hstack xs =
     (if xs = [] then Inl (ValueError ''need at least one array to concatenate'')
      else Inr (concat xs))"

definition prm_num_mzis :: "int \<Rightarrow> int list \<Rightarrow> error + int list" where
  "prm_num_mzis units_arg block_sizes_arg =
     (case prm_num_mzis_list units_arg block_sizes_arg of
        Inl e \<Rightarrow> Inl e
      | Inr xs \<Rightarrow> np_hstack xs)"

record prm_kwargs =
  pk_bs_error :: bs_error
  pk_hadamard :: bool
  pk_theta_init :: phase_arg
  pk_phi_init :: phase_arg
  pk_gamma_init :: phase_arg

record prm_mesh_model =
  base :: mesh_model
  block_sizes :: "int list"
  sampling_frequencies :: "int list"

definition PermutingRectangularMeshModel_init ::
  "helpers \<Rightarrow> config \<Rightarrow> int \<Rightarrow> int option \<Rightarrow> int list option \<Rightarrow> int list option \<Rightarrow>
     prm_kwargs \<Rightarrow> error + prm_mesh_model" where
  "PermutingRectangularMeshModel_init h cfg units_arg tunable_layers_per_block
       num_tunable_layers_list sampling kw =
     (case prm_block_sizes h units_arg tunable_layers_per_block num_tunable_layers_list sampling of
        Inl e \<Rightarrow> Inl e
      | Inr (bs, sf) \<Rightarrow>
          (case prm_num_mzis units_arg bs of
             Inl e \<Rightarrow> Inl e
           | Inr num_mzis \<Rightarrow>
               (case prm_permutation h units_arg bs sf False of
                  Inl e \<Rightarrow> Inl e
                | Inr p \<Rightarrow>
                    (case MeshModel_init p (Some num_mzis)
                            \<lparr>kw_hadamard = pk_hadamard kw, kw_bs_error = pk_bs_error kw,
                             kw_testing = False, kw_use_different_errors = False,
                             kw_theta_init = pk_theta_init kw, kw_phi_init = pk_phi_init kw,
                             kw_gamma_init = pk_gamma_init kw, kw_basis = BLOCH cfg\<rparr> of
                       Inl e \<Rightarrow> Inl e
                     | Inr m \<Rightarrow>
                         Inr \<lparr>base = m, block_sizes = bs, sampling_frequencies = sf\<rparr>))))"

section \<open>Default arguments, the specification's wording, and sample parameters\<close>

text \<open>The default keyword arguments of the four constructors, as their signatures give them.\<close>

definition MeshModel_defaults :: "config \<Rightarrow> mesh_kwargs" where
  "MeshModel_defaults cfg =
     \<lparr>kw_hadamard = False, kw_bs_error = BsScalar 0, kw_testing = False,
      kw_use_different_errors = False,
      kw_theta_init = Plain (InitName ''random_theta''),
      kw_phi_init = Plain (InitName ''random_phi''),
      kw_gamma_init = Plain (InitName ''random_gamma''),
      kw_basis = BLOCH cfg\<rparr>"

definition RectangularMeshModel_defaults :: "config \<Rightarrow> grid_kwargs" where
  "RectangularMeshModel_defaults cfg =
     \<lparr>gk_hadamard = False, gk_bs_error = BsScalar 0, gk_basis = BLOCH cfg,
      gk_theta_init = Plain (InitName ''haar_rect''),
      gk_phi_init = Plain (InitName ''random_phi''),
      gk_gamma_init = Plain (InitName ''random_gamma'')\<rparr>"

definition TriangularMeshModel_defaults :: "config \<Rightarrow> grid_kwargs" where
  "TriangularMeshModel_defaults cfg =
     \<lparr>gk_hadamard = False, gk_bs_error = BsScalar 0, gk_basis = BLOCH cfg,
      gk_theta_init = Plain (InitName ''haar_tri''),
      gk_phi_init = Plain (InitName ''random_phi''),
      gk_gamma_init = Plain (InitName ''random_gamma'')\<rparr>"

definition PermutingRectangularMeshModel_defaults :: prm_kwargs where
  "PermutingRectangularMeshModel_defaults =
     \<lparr>pk_bs_error = BsScalar 0, pk_hadamard = False,
      pk_theta_init = Plain (InitName ''haar_prm''),
      pk_phi_init = Plain (InitName ''random_phi''),
      pk_gamma_init = Plain (InitName ''random_gamma'')\<rparr>"

text \<open>
  The specification's formulas, written as it words them, to compare the code with.
  \<open>spec_coefficient f g e_l e_r\<close> is the array \<open>f(\<pi>/4 + e_l) \<cdot> g(\<pi>/4 + e_r)\<close>, element by
  element; \<open>spec_tensors\<close> is the quadruple \<open>(ss, cs, sc, cc)\<close> of the error tensors;
  \<open>spec_rect_count\<close> is the alternating tunable count of a rectangular layer;
  \<open>spec_tri_counts\<close> is the sequence \<open>1, \<dots>, N - 1, N - 2, \<dots>, 1\<close> with each entry halved
  and rounded up.
\<close>

definition spec_coefficient ::
  "(real \<Rightarrow> real) \<Rightarrow> (real \<Rightarrow> real) \<Rightarrow> real ndarray \<Rightarrow> real ndarray \<Rightarrow> real ndarray" where
  "spec_coefficient f g e_l e_r =
     \<lparr>shape = shape e_l,
      data = map2 (\<lambda>a b. f (pi / 4 + a) * g (pi / 4 + b)) (data e_l) (data e_r)\<rparr>"

definition spec_tensors ::
  "(real ndarray \<Rightarrow> nat \<Rightarrow> real ndarray) \<Rightarrow> nat \<Rightarrow> real ndarray \<Rightarrow> real ndarray \<Rightarrow>
     real ndarray \<times> real ndarray \<times> real ndarray \<times> real ndarray" where
  "spec_tensors stripe n e_l e_r =
     (scalar_times 2 (stripe (spec_coefficient sin sin e_l e_r) n),
      scalar_times 2 (stripe (spec_coefficient cos sin e_l e_r) n),
      scalar_times 2 (stripe (spec_coefficient sin cos e_l e_r) n),
      scalar_times 2 (stripe (spec_coefficient cos cos e_l e_r) n))"

definition spec_rect_count :: "int \<Rightarrow> nat \<Rightarrow> int" where
  "spec_rect_count n i = (if even i then n div 2 else (n - 1) div 2)"

definition spec_tri_counts :: "int \<Rightarrow> int list" where
  "spec_tri_counts n = map (\<lambda>v. \<lceil>real_of_int v / 2\<rceil>) ([1..n - 1] @ rev [1..n - 2])"

text \<open>
  The count that the code stores for layer \<open>i\<close> of a rectangular block, as the \<^verbatim>\<open>int32\<close>
  it becomes.
\<close>

definition stored_rect_count :: "int \<Rightarrow> nat \<Rightarrow> int" where
  "stored_rect_count n i =
     (if even i then astype_int32 (n div 2) else store_int32 ((n - 1) div 2))"

text \<open>
  Sample values of the parameters, to run the model on concrete inputs: a configuration, a
  random source that counts (seeding with \<open>s\<close> sets the counter to \<open>s\<close>, a draw returns the
  counter and steps it), helpers that return arrays of the shapes their interfaces state
  (filled with zeros), and a stripe transform that writes each coefficient to the two
  ports of its device and zero to a last unpaired port.
\<close>

definition sample_config :: config where
  "sample_config = \<lparr>BLOCH = ''bloch'', TEST_SEED = 31415\<rparr>"

definition sample_np_random :: "nat np_random" where
  "sample_np_random = \<lparr>seed = (\<lambda>s. nat s), gauss = (\<lambda>g. (real g, Suc g))\<rparr>"

definition sample_helpers :: helpers where
  "sample_helpers =
     \<lparr>grid_permutation = (\<lambda>n l.
        if n < 0 \<or> l < 0 then Inl (ValueError ''negative dimensions are not allowed'')
        else Inr \<lparr>shape = [nat l + 1, nat n], data = replicate ((nat l + 1) * nat n) 0\<rparr>),
      prm_permutation = (\<lambda>n bs sf butterfly.
        if n < 0 \<or> sum_list bs < 0 then Inl (ValueError ''negative dimensions are not allowed'')
        else Inr \<lparr>shape = [nat (sum_list bs) + 1, nat n],
                  data = replicate ((nat (sum_list bs) + 1) * nat n) 0\<rparr>),
      get_efficient_coarse_grain_block_sizes = (\<lambda>n t. Inr ([t, t], [1])),
      get_default_coarse_grain_block_sizes = (\<lambda>n. Inr ([n], []))\<rparr>"

definition sample_stripe :: "real ndarray \<Rightarrow> nat \<Rightarrow> real ndarray" where
  "sample_stripe a n =
     (let l = shape a ! 0; w = shape a ! 1
      in \<lparr>shape = [l, n],
          data = map (\<lambda>i. if (i mod n) div 2 < w then data a ! ((i div n) * w + (i mod n) div 2)
                           else 0) [0..<l * n]\<rparr>)"

text \<open>
  The sample object with \<open>N = 4\<close>, \<open>L = 2\<close>, \<open>num_tunable = [2, 1]\<close> and \<open>testing\<close> set, for a
  given \<open>bs_error\<close> and a given \<open>use_different_errors\<close>. It is what \<open>MeshModel_init\<close>
  returns for these arguments.
\<close>

definition sample_perm_idx :: "int ndarray" where
  "sample_perm_idx = \<lparr>shape = [3, 4], data = [0, 1, 2, 3, 1, 2, 3, 0, 0, 1, 2, 3]\<rparr>"

definition sample_kwargs :: "bs_error \<Rightarrow> bool \<Rightarrow> mesh_kwargs" where
  "sample_kwargs e d =
     (MeshModel_defaults sample_config)
       \<lparr>kw_bs_error := e, kw_testing := True, kw_use_different_errors := d\<rparr>"

definition sample_model :: "bs_error \<Rightarrow> bool \<Rightarrow> mesh_model" where
  "sample_model e d =
     \<lparr>units = 4, num_layers = 2, perm_idx = sample_perm_idx, num_tunable = [2, 1],
      hadamard = False, bs_error = e, testing = True, use_different_errors = d,
      mask = \<lparr>shape = [2, 2], data = [1, 1, 1, 0]\<rparr>,
      theta_init = InitName ''random_theta'', theta_fn = None,
      phi_init = InitName ''random_phi'', phi_fn = None,
      gamma_init = InitName ''random_gamma'', gamma_fn = None, basis = ''bloch''\<rparr>"

section \<open>The mask of a constructed model\<close>

subsection \<open>Slice assignment and the loop that fills the mask\<close>

lemma slice_stop_le: "slice_stop k n \<le> n"
  by (simp add: slice_stop_def) linarith

lemma row_index_less: "l < (j::nat) \<Longrightarrow> k < w \<Longrightarrow> l * w + k < j * w"
proof -
  assume a: "l < j" "k < w"
  have "l * w + k < l * w + w" using a by simp
  also have "\<dots> = Suc l * w" by simp
  also have "\<dots> \<le> j * w" using a by (intro mult_le_mono1) simp
  finally show ?thesis .
qed

lemma row_index_bound: "l < (r::nat) \<Longrightarrow> s \<le> w \<Longrightarrow> l * w + s \<le> r * w"
proof -
  assume a: "l < r" "s \<le> w"
  have "l * w + s \<le> l * w + w" using a by simp
  also have "\<dots> = Suc l * w" by simp
  also have "\<dots> \<le> r * w" using a by (intro mult_le_mono1) simp
  finally show ?thesis .
qed

lemma assign_row_prefix_shape: "shape (assign_row_prefix a l k v) = shape a"
  by (simp add: assign_row_prefix_def Let_def)

lemma assign_row_prefix_length:
  assumes "shape a = [r, w]" "length (data a) = r * w" "layer < r"
  shows "length (data (assign_row_prefix a layer k v)) = r * w"
proof -
  have "layer * w + slice_stop k w \<le> r * w"
    using assms(3) slice_stop_le by (rule row_index_bound)
  then show ?thesis
    using assms(1,2) by (simp add: assign_row_prefix_def Let_def)
qed

lemma assign_row_prefix_at2:
  assumes "shape a = [r, w]" "length (data a) = r * w" "layer < r" "l < r" "k < w"
  shows "at2 (assign_row_prefix a layer j v) l k =
           (if l = layer \<and> k < slice_stop j w then v else at2 a l k)"
proof -
  let ?s = "slice_stop j w"
  have sw: "?s \<le> w" by (rule slice_stop_le)
  have b: "layer * w + ?s \<le> r * w" using assms(3) sw by (rule row_index_bound)
  have len: "length (take (layer * w) (data a)) = layer * w"
    using b assms(2) by simp
  consider (lt) "l < layer" | (eq) "l = layer" | (gt) "layer < l" by linarith
  then show ?thesis
  proof cases
    case lt
    then have "l * w + k < layer * w" using assms(5) by (rule row_index_less)
    then show ?thesis using lt assms(1) len
      by (simp add: at2_def assign_row_prefix_def Let_def nth_append)
  next
    case eq
    show ?thesis
    proof (cases "k < ?s")
      case True
      then show ?thesis using eq assms(1) len
        by (simp add: at2_def assign_row_prefix_def Let_def nth_append)
    next
      case False
      then have "layer * w + ?s + (k - ?s) = layer * w + k" by simp
      then show ?thesis using eq False assms(1,2) len b
        by (simp add: at2_def assign_row_prefix_def Let_def nth_append)
    qed
  next
    case gt
    have "layer * w + ?s \<le> l * w" using gt sw by (rule row_index_bound)
    then have c: "layer * w + ?s \<le> l * w + k" by simp
    then have d: "layer * w + ?s + (l * w + k - layer * w - ?s) = l * w + k" by simp
    have e: "\<not> l * w + k < layer * w" "\<not> l * w + k - layer * w < ?s" using c by linarith+
    show ?thesis using gt assms(1,2) len b d e
      by (simp add: at2_def assign_row_prefix_def Let_def nth_append)
  qed
qed


lemma np_zeros_at2: "l < r \<Longrightarrow> k < c \<Longrightarrow> at2 (np_zeros r c) l k = 0"
  using row_index_less [of l r k c] by (simp add: at2_def np_zeros_def)

lemma build_mask_Inr:
  assumes "shape m = [r, w]" "length (data m) = r * w" "\<forall>l\<in>set ls. l < r"
    "build_mask nt ls m = Inr m'"
  shows "shape m' = [r, w] \<and> length (data m') = r * w \<and>
         (\<forall>l<r. \<forall>k<w. at2 m' l k =
            (if l \<in> set ls \<and> k < slice_stop (nt ! l) w then 1 else at2 m l k))"
  using assms
proof (induction ls arbitrary: m)
  case Nil
  then show ?case by simp
next
  case (Cons layer layers)
  let ?m1 = "assign_row_prefix m layer (nt ! layer) 1"
  have lr: "layer < r" using Cons.prems(3) by simp
  have inb: "layer < length nt" and rest: "build_mask nt layers ?m1 = Inr m'"
    using Cons.prems(4) by (auto split: if_splits)
  have s1: "shape ?m1 = [r, w]" using Cons.prems(1) by (simp add: assign_row_prefix_shape)
  have l1: "length (data ?m1) = r * w"
    using Cons.prems(1,2) lr by (rule assign_row_prefix_length)
  have a1: "\<forall>l\<in>set layers. l < r" using Cons.prems(3) by simp
  have ih: "shape m' = [r, w] \<and> length (data m') = r * w \<and>
         (\<forall>l<r. \<forall>k<w. at2 m' l k =
            (if l \<in> set layers \<and> k < slice_stop (nt ! l) w then 1 else at2 ?m1 l k))"
    using Cons.IH [OF s1 l1 a1 rest] .
  have step: "\<And>l k. l < r \<Longrightarrow> k < w \<Longrightarrow> at2 ?m1 l k =
           (if l = layer \<and> k < slice_stop (nt ! layer) w then 1 else at2 m l k)"
    using Cons.prems(1,2) lr by (rule assign_row_prefix_at2)
  show ?case using ih step by auto
qed

lemma build_mask_succeeds:
  "\<forall>l\<in>set ls. l < length nt \<Longrightarrow> \<exists>m'. build_mask nt ls m = Inr m'"
  by (induction ls arbitrary: m) auto

lemma build_mask_short:
  "\<exists>l\<in>set ls. \<not> l < length nt \<Longrightarrow> \<exists>msg. build_mask nt ls m = Inl (IndexError msg)"
  by (induction ls arbitrary: m) auto

lemma build_mask_range:
  assumes "build_mask nt [0..<r] (np_zeros r w) = Inr m'"
  shows "shape m' = [r, w] \<and> length (data m') = r * w \<and>
         (\<forall>l<r. \<forall>k<w. at2 m' l k = (if k < slice_stop (nt ! l) w then 1 else 0))"
proof -
  have a: "shape (np_zeros r w) = [r, w]" "length (data (np_zeros r w)) = r * w"
    by (simp_all add: np_zeros_def)
  have b: "\<forall>l\<in>set [0..<r]. l < r" by simp
  show ?thesis using build_mask_Inr [OF a b assms] by (simp add: np_zeros_at2)
qed

lemma MeshModel_init_unfold:
  assumes "shape p = Suc l # n # rest"
  shows "MeshModel_init p nt_arg kw =
     (let nt = (case nt_arg of Some a \<Rightarrow> a | None \<Rightarrow> replicate l (int (n div 2)))
      in case build_mask nt [0..<l] (np_zeros l (n div 2)) of
           Inl e \<Rightarrow> Inl e
         | Inr m \<Rightarrow>
             if length nt \<noteq> l
             then Inl (ValueError ''num_mzis, perm_idx num_layers mismatch.'')
             else if n < 2
             then Inl (ValueError ''units must be at least 2.'')
             else Inr \<lparr>units = n, num_layers = l, perm_idx = p, num_tunable = nt,
                      hadamard = kw_hadamard kw, bs_error = kw_bs_error kw,
                      testing = kw_testing kw,
                      use_different_errors = kw_use_different_errors kw,
                      mask = m,
                      theta_init = fst (phase_split (kw_theta_init kw)),
                      theta_fn = snd (phase_split (kw_theta_init kw)),
                      phi_init = fst (phase_split (kw_phi_init kw)),
                      phi_fn = snd (phase_split (kw_phi_init kw)),
                      gamma_init = fst (phase_split (kw_gamma_init kw)),
                      gamma_fn = snd (phase_split (kw_gamma_init kw)),
                      basis = kw_basis kw\<rparr>)"
  using assms by (simp add: MeshModel_init_def Let_def)

lemma MeshModel_init_Inr:
  assumes "shape p = Suc l # n # rest" "MeshModel_init p nt_arg kw = Inr m"
  shows "units m = n \<and> num_layers m = l \<and> perm_idx m = p \<and> 2 \<le> n \<and>
         num_tunable m = (case nt_arg of Some a \<Rightarrow> a | None \<Rightarrow> replicate l (int (n div 2))) \<and>
         length (num_tunable m) = l \<and>
         build_mask (num_tunable m) [0..<l] (np_zeros l (n div 2)) = Inr (mask m) \<and>
         bs_error m = kw_bs_error kw \<and> testing m = kw_testing kw \<and>
         use_different_errors m = kw_use_different_errors kw \<and> hadamard m = kw_hadamard kw"
  using assms(2) unfolding MeshModel_init_unfold [OF assms(1)] Let_def
  by (auto split: sum.splits if_splits)

lemma MeshModel_init_succeeds:
  assumes "shape p = Suc l # n # rest" "2 \<le> n"
    "length (case nt_arg of Some a \<Rightarrow> a | None \<Rightarrow> replicate l (int (n div 2))) = l"
  shows "\<exists>m. MeshModel_init p nt_arg kw = Inr m"
proof -
  let ?nt = "case nt_arg of Some a \<Rightarrow> a | None \<Rightarrow> replicate l (int (n div 2))"
  have "\<forall>i\<in>set [0..<l]. i < length ?nt" using assms(3) by simp
  then obtain m' where "build_mask ?nt [0..<l] (np_zeros l (n div 2)) = Inr m'"
    using build_mask_succeeds by blast
  then show ?thesis
    unfolding MeshModel_init_unfold [OF assms(1)] Let_def using assms(2,3) by simp
qed

subsection \<open>The accessors leave the object as it is\<close>

lemma init_this: "this (snd (init s)) = this s"
  by (simp add: init_def)

lemma mzi_error_matrices_this: "this (snd (mzi_error_matrices np cfg s)) = this s"
  by (simp add: mzi_error_matrices_def Let_def split: bs_error.splits prod.splits sum.splits)

lemma mzi_error_tensors_this: "this (snd (mzi_error_tensors stripe np cfg s)) = this s"
proof -
  obtain r s' where a: "mzi_error_matrices np cfg s = (r, s')"
    by (cases "mzi_error_matrices np cfg s")
  then have "this s' = this s" using mzi_error_matrices_this [of np cfg s] by simp
  then show ?thesis using a
    by (simp add: mzi_error_tensors_def Let_def split: sum.splits prod.splits)
qed

lemma slice_stop_nonneg: "0 \<le> j \<Longrightarrow> (k < slice_stop j w) = (k < w \<and> int k < j)"
  by (auto simp: slice_stop_def)

lemma slice_stop_neg: "j < 0 \<Longrightarrow> (k < slice_stop j w) = (int k < int w + j)"
  by (auto simp: slice_stop_def)

lemma sample_mask:
  "build_mask [2, 1] [0..<2] (np_zeros 2 2) = Inr \<lparr>shape = [2, 2], data = [1, 1, 1, 0]\<rparr>"
  by code_simp

lemma sample_model_constructed:
  "MeshModel_init sample_perm_idx (Some [2, 1]) (sample_kwargs e d) = Inr (sample_model e d)"
proof -
  have s: "shape sample_perm_idx = Suc 2 # 4 # []" by (simp add: sample_perm_idx_def)
  show ?thesis
    unfolding MeshModel_init_unfold [OF s]
    by (simp add: sample_mask Let_def sample_kwargs_def sample_model_def
        MeshModel_defaults_def sample_config_def)
qed

subsection \<open>Construction with a \<open>num_tunable\<close> of the wrong length, or with fewer than two units\<close>

text \<open>
  What \<open>MeshModel_init\<close> does with a \<open>num_tunable\<close> of the wrong length: a longer array
  reaches the length check and is refused with its \<^verbatim>\<open>ValueError\<close>; a shorter array is read
  past its end by the loop that fills the mask, which comes first, and the error is numpy's
  \<^verbatim>\<open>IndexError\<close>. With the right length and fewer than two units the second check refuses
  the construction.
\<close>

lemma MeshModel_init_long_num_tunable:
  assumes "shape p = [Suc L, N]" "L < length nt"
  shows "MeshModel_init p (Some nt) kw =
           Inl (ValueError ''num_mzis, perm_idx num_layers mismatch.'')"
proof -
  have "\<forall>i\<in>set [0..<L]. i < length nt" using assms(2) by simp
  then obtain m' where "build_mask nt [0..<L] (np_zeros L (N div 2)) = Inr m'"
    using build_mask_succeeds by blast
  then show ?thesis
    unfolding MeshModel_init_unfold [OF assms(1)] Let_def using assms(2) by simp
qed

lemma MeshModel_init_short_num_tunable:
  assumes "shape p = [Suc L, N]" "length nt < L"
  shows "\<exists>msg. MeshModel_init p (Some nt) kw = Inl (IndexError msg)"
proof -
  have "\<exists>i\<in>set [0..<L]. \<not> i < length nt" using assms(2) by auto
  then obtain msg where "build_mask nt [0..<L] (np_zeros L (N div 2)) = Inl (IndexError msg)"
    using build_mask_short by blast
  then show ?thesis
    unfolding MeshModel_init_unfold [OF assms(1)] Let_def by simp
qed

lemma MeshModel_init_few_units:
  assumes "shape p = [Suc L, N]" "length nt = L" "N < 2"
  shows "MeshModel_init p (Some nt) kw = Inl (ValueError ''units must be at least 2.'')"
proof -
  have "\<forall>i\<in>set [0..<L]. i < length nt" using assms(2) by simp
  then obtain m' where "build_mask nt [0..<L] (np_zeros L (N div 2)) = Inr m'"
    using build_mask_succeeds by blast
  then show ?thesis
    unfolding MeshModel_init_unfold [OF assms(1)] Let_def using assms(2,3) by simp
qed

text \<open>
  Claim C1: constructing a MeshModel with a \<open>num_tunable\<close> whose length differs from \<open>L\<close>
  always fails with the validation error of the constructor. The code does not do so for
  a \<open>num_tunable\<close> that is too short: with a \<open>perm_idx\<close> of shape \<open>3 \<times> 4\<close> (so \<open>L = 2\<close>) and
  the one-element array \<open>[2]\<close>, the loop that fills the mask reads \<^verbatim>\<open>num_tunable[1]\<close> and
  the construction ends with numpy's \<^verbatim>\<open>IndexError\<close>; the length check that would raise
  the \<^verbatim>\<open>ValueError\<close> stands after the loop and is never reached.
\<close>

theorem short_num_tunable_raises_IndexError:
  "MeshModel_init sample_perm_idx (Some [2]) (MeshModel_defaults sample_config) =
     Inl (IndexError ''index is out of bounds for axis 0'')"
  by code_simp

subsection \<open>The mask\<close>

text \<open>
  Claim C2, as amended: for every MeshModel constructed from a \<open>perm_idx\<close> of shape
  \<open>(L + 1) \<times> N\<close> and an array \<open>num_tunable\<close>, the array has length \<open>L\<close>, the mask has shape
  \<open>(L, N div 2)\<close>, and in every layer \<open>l\<close> with \<open>num_tunable[l] \<ge> 0\<close> the entry
  \<open>mask[l][k]\<close> is 1 for \<open>k < num_tunable[l]\<close> and 0 for \<open>k \<ge> num_tunable[l]\<close>. In a layer
  with a negative \<open>num_tunable[l]\<close> the slice counts from the end of the row: the entry is
  1 for \<open>k < N div 2 + num_tunable[l]\<close> and 0 otherwise. No accessor (\<open>init\<close>,
  \<open>mzi_error_matrices\<close>, \<open>mzi_error_tensors\<close>) changes the mask.
\<close>

theorem mask_of_constructed_model:
  assumes "shape p = [Suc L, N]" "MeshModel_init p (Some nt) kw = Inr m"
  shows "length nt = L \<and> shape (mask m) = [L, N div 2] \<and>
     (\<forall>l<L. \<forall>k<N div 2. 0 \<le> nt ! l \<longrightarrow>
        at2 (mask m) l k = (if int k < nt ! l then 1 else 0)) \<and>
     (\<forall>l<L. \<forall>k<N div 2. nt ! l < 0 \<longrightarrow>
        at2 (mask m) l k = (if int k < int (N div 2) + nt ! l then 1 else 0)) \<and>
     mask (this (snd (init \<lparr>this = m, random_state = g\<rparr>))) = mask m \<and>
     mask (this (snd (mzi_error_matrices np cfg \<lparr>this = m, random_state = g\<rparr>))) = mask m \<and>
     mask (this (snd (mzi_error_tensors stripe np cfg \<lparr>this = m, random_state = g\<rparr>))) = mask m"
proof -
  have i: "num_tunable m = nt" "length (num_tunable m) = L"
    "build_mask (num_tunable m) [0..<L] (np_zeros L (N div 2)) = Inr (mask m)"
    using MeshModel_init_Inr [OF assms] by auto
  have b: "shape (mask m) = [L, N div 2]"
    "\<forall>l<L. \<forall>k<N div 2. at2 (mask m) l k = (if k < slice_stop (nt ! l) (N div 2) then 1 else 0)"
    using build_mask_range [OF i(3)] i(1) by simp_all
  have c: "\<forall>l<L. \<forall>k<N div 2. 0 \<le> nt ! l \<longrightarrow>
        at2 (mask m) l k = (if int k < nt ! l then 1 else 0)"
    using b(2) by (simp add: slice_stop_nonneg)
  have d: "\<forall>l<L. \<forall>k<N div 2. nt ! l < 0 \<longrightarrow>
        at2 (mask m) l k = (if int k < int (N div 2) + nt ! l then 1 else 0)"
    using b(2) by (simp add: slice_stop_neg)
  show ?thesis
    using i(1,2) b(1) c d
    by (simp add: init_this mzi_error_matrices_this mzi_error_tensors_this)
qed

text \<open>
  The theorem at \<open>N = 4\<close>, \<open>L = 2\<close> and \<open>num_tunable = [2, 1]\<close>: the construction succeeds,
  the mask is \<open>2 \<times> 2\<close>, and its second row is \<open>1, 0\<close>.
\<close>

theorem mask_of_constructed_model_witness:
  "\<exists>m. MeshModel_init sample_perm_idx (Some [2, 1]) (sample_kwargs (BsScalar 0) False) = Inr m \<and>
       shape (mask m) = [2, 2] \<and> at2 (mask m) 1 0 = 1 \<and> at2 (mask m) 1 1 = 0 \<and>
       mask (this (snd (mzi_error_matrices sample_np_random sample_config
                          \<lparr>this = m, random_state = 0\<rparr>))) = mask m"
proof -
  let ?m = "sample_model (BsScalar 0) False"
  have s: "shape sample_perm_idx = [Suc 2, 4]" by (simp add: sample_perm_idx_def)
  have c: "MeshModel_init sample_perm_idx (Some [2, 1]) (sample_kwargs (BsScalar 0) False) = Inr ?m"
    by (rule sample_model_constructed)
  note t = mask_of_constructed_model [OF s c, of 0 sample_np_random sample_config]
  have "shape (mask ?m) = [2, 2]" using t by simp
  moreover have "at2 (mask ?m) 1 0 = 1" using t by simp
  moreover have "at2 (mask ?m) 1 1 = 0" using t by simp
  moreover have "mask (this (snd (mzi_error_matrices sample_np_random sample_config
                          \<lparr>this = ?m, random_state = 0\<rparr>))) = mask ?m" using t by blast
  ultimately show ?thesis using c by blast
qed

text \<open>
  The claim as stated fails for a negative count: with \<open>N = 4\<close>, \<open>L = 1\<close> and
  \<open>num_tunable = [-1]\<close> the slice \<^verbatim>\<open>[:-1]\<close> sets \<open>mask[0][0]\<close> to 1, although \<open>0 \<ge> -1\<close>.
\<close>

theorem mask_negative_count_counterexample:
  "map_sum id mask
     (MeshModel_init \<lparr>shape = [2, 4], data = [0, 1, 2, 3, 0, 1, 2, 3]\<rparr> (Some [- 1])
        (MeshModel_defaults sample_config)) =
   Inr \<lparr>shape = [1, 2], data = [1, 0]\<rparr>"
  by code_simp


section \<open>The error matrices and the error tensors\<close>

subsection \<open>Drawing samples, and the branches of \<open>mzi_error_matrices\<close>\<close>

lemma draws_length: "length (fst (draws f n g)) = n"
proof (induction n arbitrary: g)
  case 0
  show ?case by simp
next
  case (Suc n)
  obtain x g' where a: "f g = (x, g')" by (cases "f g")
  obtain xs g'' where b: "draws f n g' = (xs, g'')" by (cases "draws f n g'")
  have "length xs = n" using Suc.IH [of g'] b by simp
  then show ?case using a b by simp
qed

lemma randn_shape: "shape (fst (randn np d0 d1 g)) = [d0, d1]"
  by (simp add: randn_def split: prod.splits)

lemma randn_length: "length (data (fst (randn np d0 d1 g))) = d0 * d1"
proof -
  obtain xs g' where a: "draws (gauss np) (d0 * d1) g = (xs, g')"
    by (cases "draws (gauss np) (d0 * d1) g")
  then have "length xs = d0 * d1" using draws_length [of "gauss np" "d0 * d1" g] by simp
  then show ?thesis using a by (simp add: randn_def)
qed

lemma ndarray_mul_shape: "shape (ndarray_mul a b) = shape a"
  by (simp add: ndarray_mul_def)

lemma ndarray_mul_zero:
  "i < length (data (ndarray_mul a b)) \<Longrightarrow> data b ! i = 0 \<Longrightarrow> data (ndarray_mul a b) ! i = 0"
  by (simp add: ndarray_mul_def)

lemma mzi_error_matrices_array:
  assumes "bs_error (this s) = BsArray a"
  shows "mzi_error_matrices np cfg s =
     (if shape a \<noteq> shape (mask (this s))
      then Inl (AttributeError ''bs_error.shape and mask.shape should be the same.'')
      else Inr (ndarray_mul a (mask (this s)), ndarray_mul a (mask (this s))),
      s\<lparr>random_state := if testing (this s) then seed np (TEST_SEED cfg) else random_state s\<rparr>)"
  using assms by (simp add: mzi_error_matrices_def Let_def)

lemma tuple_errors_pair:
  "tuple_errors [ItemArray a, ItemArray b] sh =
     (if shape a \<noteq> sh \<or> shape b \<noteq> sh
      then Inl (AttributeError ''bs_error.shape and mask.shape should be the same.'')
      else Inr (a, b))"
  by (simp add: tuple_errors_def)

lemma tuple_errors_Inr:
  "tuple_errors items sh = Inr (a, b) \<Longrightarrow>
     items = [ItemArray a, ItemArray b] \<and> shape a = sh \<and> shape b = sh"
  by (auto simp: tuple_errors_def split: list.splits tuple_item.splits if_splits)

lemma mzi_error_matrices_tuple:
  assumes "bs_error (this s) = BsTuple items"
  shows "mzi_error_matrices np cfg s =
     (case tuple_errors items (shape (mask (this s))) of
        Inl e \<Rightarrow> Inl e
      | Inr (a, b) \<Rightarrow> Inr (ndarray_mul a (mask (this s)), ndarray_mul b (mask (this s))),
      s\<lparr>random_state := if testing (this s) then seed np (TEST_SEED cfg) else random_state s\<rparr>)"
  using assms by (simp add: mzi_error_matrices_def Let_def split: sum.splits prod.splits)

lemma mzi_error_matrices_pair:
  assumes "bs_error (this s) = BsTuple [ItemArray a, ItemArray b]"
  shows "mzi_error_matrices np cfg s =
     (if shape a \<noteq> shape (mask (this s)) \<or> shape b \<noteq> shape (mask (this s))
      then Inl (AttributeError ''bs_error.shape and mask.shape should be the same.'')
      else Inr (ndarray_mul a (mask (this s)), ndarray_mul b (mask (this s))),
      s\<lparr>random_state := if testing (this s) then seed np (TEST_SEED cfg) else random_state s\<rparr>)"
  unfolding mzi_error_matrices_tuple [OF assms] tuple_errors_pair by simp

lemma mzi_error_matrices_other:
  assumes "bs_error (this s) = BsOther"
  shows "mzi_error_matrices np cfg s =
     (Inl (TypeError ''bs_error must be float, ndarray or (ndarray, ndarray).''),
      s\<lparr>random_state := if testing (this s) then seed np (TEST_SEED cfg) else random_state s\<rparr>)"
  using assms by (simp add: mzi_error_matrices_def Let_def)

lemma mzi_error_matrices_scalar:
  assumes "bs_error (this s) = BsScalar x"
  shows "mzi_error_matrices np cfg s =
     (let l = num_layers (this s); w = units (this s) div 2;
          g1 = (if testing (this s) then seed np (TEST_SEED cfg) else random_state s);
          g2 = snd (randn np l w g1);
          g3 = (if testing (this s) then seed np (TEST_SEED cfg + 1) else g2);
          e_l = ndarray_mul (times_scalar (fst (randn np l w g1)) x) (mask (this s));
          e_r = ndarray_mul (times_scalar (fst (randn np l w g3)) x) (mask (this s))
      in if use_different_errors (this s)
         then (Inr (e_l, e_r), s\<lparr>random_state := snd (randn np l w g3)\<rparr>)
         else (Inr (e_l, e_l), s\<lparr>random_state := g2\<rparr>))"
  using assms by (simp add: mzi_error_matrices_def Let_def split: prod.splits)

lemma mzi_error_matrices_masked:
  assumes "fst (mzi_error_matrices np cfg s) = Inr (e_l, e_r)"
  shows "\<exists>x y. e_l = ndarray_mul x (mask (this s)) \<and> e_r = ndarray_mul y (mask (this s))"
proof (cases "bs_error (this s)")
  case (BsScalar x)
  show ?thesis using assms unfolding mzi_error_matrices_scalar [OF BsScalar] Let_def
    by (auto split: if_splits)
next
  case (BsArray a)
  show ?thesis using assms unfolding mzi_error_matrices_array [OF BsArray]
    by (auto split: if_splits)
next
  case (BsTuple items)
  show ?thesis using assms unfolding mzi_error_matrices_tuple [OF BsTuple]
    by (auto split: sum.splits)
next
  case BsOther
  show ?thesis using assms unfolding mzi_error_matrices_other [OF BsOther] by simp
qed

lemma code_coefficient:
  "ndarray_mul (ndarray_map f (scalar_plus (pi / 4) e_l)) (ndarray_map g (scalar_plus (pi / 4) e_r)) =
     spec_coefficient f g e_l e_r"
  by (simp add: ndarray_mul_def ndarray_map_def scalar_plus_def spec_coefficient_def
      zip_map_map case_prod_unfold)

lemma mzi_error_tensors_spec:
  assumes "fst (mzi_error_matrices np cfg s) = Inr (e_l, e_r)"
  shows "mzi_error_tensors stripe np cfg s =
           (Inr (spec_tensors stripe (units (this s)) e_l e_r), snd (mzi_error_matrices np cfg s))"
proof -
  obtain s' where a: "mzi_error_matrices np cfg s = (Inr (e_l, e_r), s')"
    using assms by (cases "mzi_error_matrices np cfg s") simp
  have "this s' = this s" using mzi_error_matrices_this [of np cfg s] a by simp
  then show ?thesis
    using a
    by (simp add: mzi_error_tensors_def Let_def spec_tensors_def np_cos_def np_sin_def
        code_coefficient)
qed

lemma constructed_mask_shape:
  assumes "shape p = [Suc L, N]" "MeshModel_init p nt_arg kw = Inr m"
  shows "units m = N \<and> num_layers m = L \<and> shape (mask m) = [L, N div 2]"
proof -
  have i: "units m = N" "num_layers m = L"
    "build_mask (num_tunable m) [0..<L] (np_zeros L (N div 2)) = Inr (mask m)"
    using MeshModel_init_Inr [OF assms] by auto
  show ?thesis using build_mask_range [OF i(3)] i(1,2) by simp
qed

lemma mzi_error_matrices_shapes:
  assumes "fst (mzi_error_matrices np cfg s) = Inr (e_l, e_r)"
    "shape (mask (this s)) = [num_layers (this s), units (this s) div 2]"
  shows "shape e_l = [num_layers (this s), units (this s) div 2] \<and>
         shape e_r = [num_layers (this s), units (this s) div 2]"
proof (cases "bs_error (this s)")
  case (BsScalar x)
  show ?thesis using assms(1) unfolding mzi_error_matrices_scalar [OF BsScalar] Let_def
    by (auto simp: ndarray_mul_def times_scalar_def ndarray_map_def randn_shape split: if_splits)
next
  case (BsArray a)
  show ?thesis using assms unfolding mzi_error_matrices_array [OF BsArray]
    by (auto simp: ndarray_mul_def split: if_splits)
next
  case (BsTuple items)
  show ?thesis using assms unfolding mzi_error_matrices_tuple [OF BsTuple]
    by (auto simp: ndarray_mul_def split: sum.splits dest: tuple_errors_Inr)
next
  case BsOther
  show ?thesis using assms(1) unfolding mzi_error_matrices_other [OF BsOther] by simp
qed

lemma spec_coefficient_shape: "shape (spec_coefficient f g e_l e_r) = shape e_l"
  by (simp add: spec_coefficient_def)

lemma scalar_times_shape: "shape (scalar_times x a) = shape a"
  by (simp add: scalar_times_def ndarray_map_def)

lemma sample_stripe_shape: "shape a = [l, w] \<Longrightarrow> shape (sample_stripe a n) = [l, n]"
  by (simp add: sample_stripe_def Let_def)

lemma two_sin_cos_45:
  "2 * (sin (pi / 4) * sin (pi / 4)) = 1" "2 * (cos (pi / 4) * sin (pi / 4)) = 1"
  "2 * (sin (pi / 4) * cos (pi / 4)) = 1" "2 * (cos (pi / 4) * cos (pi / 4)) = 1"
  by (simp_all add: sin_45 cos_45)

lemma mzi_error_matrices_reseed:
  assumes "testing (this s)"
  shows "fst (mzi_error_matrices np cfg (s\<lparr>random_state := g\<rparr>)) = fst (mzi_error_matrices np cfg s) \<and>
         random_state (snd (mzi_error_matrices np cfg (s\<lparr>random_state := g\<rparr>))) =
           random_state (snd (mzi_error_matrices np cfg s))"
  using assms by (simp add: mzi_error_matrices_def Let_def split: bs_error.splits prod.splits sum.splits)

lemma mzi_error_matrices_no_draw:
  assumes "\<forall>x. bs_error (this s) \<noteq> BsScalar x"
  shows "random_state (snd (mzi_error_matrices np cfg s)) =
           (if testing (this s) then seed np (TEST_SEED cfg) else random_state s)"
proof (cases "bs_error (this s)")
  case (BsScalar x)
  then show ?thesis using assms by simp
next
  case (BsArray a)
  show ?thesis unfolding mzi_error_matrices_array [OF BsArray] by simp
next
  case (BsTuple items)
  show ?thesis unfolding mzi_error_matrices_tuple [OF BsTuple] by simp
next
  case BsOther
  show ?thesis unfolding mzi_error_matrices_other [OF BsOther] by simp
qed

lemma sample_seed:
  "seed sample_np_random (TEST_SEED sample_config) = 31415"
  "seed sample_np_random (TEST_SEED sample_config + 1) = 31416"
  by (simp_all add: sample_np_random_def sample_config_def)

lemma sample_randn:
  "randn sample_np_random 2 2 g =
     (\<lparr>shape = [2, 2], data = [real g, real g + 1, real g + 2, real g + 3]\<rparr>, g + 4)"
proof -
  have four: "(2::nat) * 2 = Suc (Suc (Suc (Suc 0)))" by simp
  show ?thesis unfolding randn_def four by (simp add: sample_np_random_def)
qed

subsection \<open>The error tensors\<close>

text \<open>
  Claim C3: for every MeshModel and every pair \<open>(e_l, e_r)\<close> that \<open>mzi_error_matrices\<close>
  returns, \<open>mzi_error_tensors\<close> returns the four arrays \<open>(ss, cs, sc, cc)\<close> in this
  order, with \<open>ss = 2 \<cdot> stripe(sin(\<pi>/4 + e_l) \<cdot> sin(\<pi>/4 + e_r))\<close> and likewise for the
  other three (\<open>spec_tensors\<close>); it draws nothing more from the random source, so the
  result is a function of \<open>(e_l, e_r)\<close>; and when the stripe transform turns an
  \<open>L \<times> (N div 2)\<close> array into an \<open>L \<times> N\<close> array, each of the four is \<open>L \<times> N\<close>.
\<close>

theorem mzi_error_tensors_formula:
  assumes "shape p = [Suc L, N]" "MeshModel_init p nt_arg kw = Inr (this s)"
    "fst (mzi_error_matrices np cfg s) = Inr (e_l, e_r)"
    "\<forall>a. shape a = [L, N div 2] \<longrightarrow> shape (stripe a N) = [L, N]"
  shows "fst (mzi_error_tensors stripe np cfg s) = Inr (spec_tensors stripe N e_l e_r) \<and>
     snd (mzi_error_tensors stripe np cfg s) = snd (mzi_error_matrices np cfg s) \<and>
     shape (fst (spec_tensors stripe N e_l e_r)) = [L, N] \<and>
     shape (fst (snd (spec_tensors stripe N e_l e_r))) = [L, N] \<and>
     shape (fst (snd (snd (spec_tensors stripe N e_l e_r)))) = [L, N] \<and>
     shape (snd (snd (snd (spec_tensors stripe N e_l e_r)))) = [L, N]"
proof -
  have c: "units (this s) = N" "num_layers (this s) = L" "shape (mask (this s)) = [L, N div 2]"
    using constructed_mask_shape [OF assms(1,2)] by simp_all
  have sh: "shape e_l = [L, N div 2]"
    using mzi_error_matrices_shapes [OF assms(3)] c by simp
  have st: "\<And>f g. shape (stripe (spec_coefficient f g e_l e_r) N) = [L, N]"
    using assms(4) sh by (simp add: spec_coefficient_shape)
  have t: "mzi_error_tensors stripe np cfg s =
           (Inr (spec_tensors stripe N e_l e_r), snd (mzi_error_matrices np cfg s))"
    using mzi_error_tensors_spec [OF assms(3), of stripe] c(1) by simp
  show ?thesis using t st by (simp add: spec_tensors_def scalar_times_shape)
qed

text \<open>
  The theorem at the sample object with an error array of zeros: every coefficient is
  \<open>2 \<cdot> sin(\<pi>/4) \<cdot> cos(\<pi>/4) = 1\<close>.
\<close>

theorem mzi_error_tensors_formula_witness:
  "fst (mzi_error_tensors sample_stripe sample_np_random sample_config
          \<lparr>this = sample_model (BsArray \<lparr>shape = [2, 2], data = [0, 0, 0, 0]\<rparr>) False,
           random_state = 7\<rparr>) =
     Inr (\<lparr>shape = [2, 4], data = [1, 1, 1, 1, 1, 1, 1, 1]\<rparr>,
          \<lparr>shape = [2, 4], data = [1, 1, 1, 1, 1, 1, 1, 1]\<rparr>,
          \<lparr>shape = [2, 4], data = [1, 1, 1, 1, 1, 1, 1, 1]\<rparr>,
          \<lparr>shape = [2, 4], data = [1, 1, 1, 1, 1, 1, 1, 1]\<rparr>)"
proof -
  let ?z = "\<lparr>shape = [2, 2], data = [0, 0, 0, 0::real]\<rparr>"
  let ?m = "sample_model (BsArray ?z) False"
  let ?s = "\<lparr>this = ?m, random_state = 7::nat\<rparr>"
  have p: "shape sample_perm_idx = [Suc 2, 4]" by (simp add: sample_perm_idx_def)
  have c: "MeshModel_init sample_perm_idx (Some [2, 1]) (sample_kwargs (BsArray ?z) False) =
             Inr (this ?s)"
    using sample_model_constructed by simp
  have e: "fst (mzi_error_matrices sample_np_random sample_config ?s) = Inr (?z, ?z)"
    by (simp add: mzi_error_matrices_def sample_model_def ndarray_mul_def Let_def)
  have st: "\<forall>a. shape a = [2, 4 div 2] \<longrightarrow> shape (sample_stripe a 4) = [2, 4]"
    by (simp add: sample_stripe_shape)
  note t = mzi_error_tensors_formula [where stripe = sample_stripe, OF p c e st]
  have eight: "[0..<8] = [0, 1, 2, 3, 4, 5, 6, 7::nat]" by code_simp
  have v: "spec_tensors sample_stripe 4 ?z ?z =
     (\<lparr>shape = [2, 4], data = [1, 1, 1, 1, 1, 1, 1, 1]\<rparr>,
      \<lparr>shape = [2, 4], data = [1, 1, 1, 1, 1, 1, 1, 1]\<rparr>,
      \<lparr>shape = [2, 4], data = [1, 1, 1, 1, 1, 1, 1, 1]\<rparr>,
      \<lparr>shape = [2, 4], data = [1, 1, 1, 1, 1, 1, 1, 1]\<rparr>)"
    by (simp add: spec_tensors_def spec_coefficient_def sample_stripe_def scalar_times_def
        ndarray_map_def Let_def eight two_sin_cos_45)
  show ?thesis using t v by simp
qed

subsection \<open>The dispatch on the type of \<open>bs_error\<close>\<close>

text \<open>
  Claim C4, as amended: with a \<open>bs_error\<close> that is not a scalar, \<open>mzi_error_matrices\<close> fails
  with the shape-mismatch error if and only if the shape of the array (of either array of
  a tuple of two arrays) differs from the shape of the mask, and otherwise takes the array
  for both \<open>e_l\<close> and \<open>e_r\<close> (the two arrays for \<open>(e_l, e_r)\<close>); a value that is neither a
  scalar, an array nor a tuple fails with the type error; a tuple gives a result only when
  it is two arrays of the shape of the mask; every result that is returned is an
  element-wise product with the mask, so over finite values (the arrays here hold real
  numbers) it is zero wherever the mask is zero.
\<close>

theorem mzi_error_matrices_dispatch:
  "(bs_error (this s) = BsArray a \<longrightarrow>
      fst (mzi_error_matrices np cfg s) =
        (if shape a \<noteq> shape (mask (this s))
         then Inl (AttributeError ''bs_error.shape and mask.shape should be the same.'')
         else Inr (ndarray_mul a (mask (this s)), ndarray_mul a (mask (this s))))) \<and>
   (bs_error (this s) = BsTuple [ItemArray a, ItemArray b] \<longrightarrow>
      fst (mzi_error_matrices np cfg s) =
        (if shape a \<noteq> shape (mask (this s)) \<or> shape b \<noteq> shape (mask (this s))
         then Inl (AttributeError ''bs_error.shape and mask.shape should be the same.'')
         else Inr (ndarray_mul a (mask (this s)), ndarray_mul b (mask (this s))))) \<and>
   (bs_error (this s) = BsOther \<longrightarrow>
      fst (mzi_error_matrices np cfg s) =
        Inl (TypeError ''bs_error must be float, ndarray or (ndarray, ndarray).'')) \<and>
   (\<forall>items e_l e_r. bs_error (this s) = BsTuple items \<longrightarrow>
      fst (mzi_error_matrices np cfg s) = Inr (e_l, e_r) \<longrightarrow>
      (\<exists>x y. items = [ItemArray x, ItemArray y] \<and>
             shape x = shape (mask (this s)) \<and> shape y = shape (mask (this s)))) \<and>
   (\<forall>e_l e_r. fst (mzi_error_matrices np cfg s) = Inr (e_l, e_r) \<longrightarrow>
      (\<exists>x y. e_l = ndarray_mul x (mask (this s)) \<and> e_r = ndarray_mul y (mask (this s))) \<and>
      (\<forall>i<length (data e_l). data (mask (this s)) ! i = 0 \<longrightarrow> data e_l ! i = 0) \<and>
      (\<forall>i<length (data e_r). data (mask (this s)) ! i = 0 \<longrightarrow> data e_r ! i = 0))"
proof -
  have a: "bs_error (this s) = BsArray a \<longrightarrow>
      fst (mzi_error_matrices np cfg s) =
        (if shape a \<noteq> shape (mask (this s))
         then Inl (AttributeError ''bs_error.shape and mask.shape should be the same.'')
         else Inr (ndarray_mul a (mask (this s)), ndarray_mul a (mask (this s))))"
    by (simp add: mzi_error_matrices_array)
  have b: "bs_error (this s) = BsTuple [ItemArray a, ItemArray b] \<longrightarrow>
      fst (mzi_error_matrices np cfg s) =
        (if shape a \<noteq> shape (mask (this s)) \<or> shape b \<noteq> shape (mask (this s))
         then Inl (AttributeError ''bs_error.shape and mask.shape should be the same.'')
         else Inr (ndarray_mul a (mask (this s)), ndarray_mul b (mask (this s))))"
    by (simp add: mzi_error_matrices_pair)
  have c: "bs_error (this s) = BsOther \<longrightarrow>
      fst (mzi_error_matrices np cfg s) =
        Inl (TypeError ''bs_error must be float, ndarray or (ndarray, ndarray).'')"
    by (simp add: mzi_error_matrices_other)
  have t: "\<forall>items e_l e_r. bs_error (this s) = BsTuple items \<longrightarrow>
      fst (mzi_error_matrices np cfg s) = Inr (e_l, e_r) \<longrightarrow>
      (\<exists>x y. items = [ItemArray x, ItemArray y] \<and>
             shape x = shape (mask (this s)) \<and> shape y = shape (mask (this s)))"
  proof (intro allI impI)
    fix items e_l e_r
    assume i: "bs_error (this s) = BsTuple items"
      and r: "fst (mzi_error_matrices np cfg s) = Inr (e_l, e_r)"
    obtain x y where "tuple_errors items (shape (mask (this s))) = Inr (x, y)"
      using r unfolding mzi_error_matrices_tuple [OF i]
      by (cases "tuple_errors items (shape (mask (this s)))") auto
    then show "\<exists>x y. items = [ItemArray x, ItemArray y] \<and>
             shape x = shape (mask (this s)) \<and> shape y = shape (mask (this s))"
      using tuple_errors_Inr by blast
  qed
  have d: "\<forall>e_l e_r. fst (mzi_error_matrices np cfg s) = Inr (e_l, e_r) \<longrightarrow>
      (\<exists>x y. e_l = ndarray_mul x (mask (this s)) \<and> e_r = ndarray_mul y (mask (this s))) \<and>
      (\<forall>i<length (data e_l). data (mask (this s)) ! i = 0 \<longrightarrow> data e_l ! i = 0) \<and>
      (\<forall>i<length (data e_r). data (mask (this s)) ! i = 0 \<longrightarrow> data e_r ! i = 0)"
  proof (intro allI impI)
    fix e_l e_r
    assume r: "fst (mzi_error_matrices np cfg s) = Inr (e_l, e_r)"
    obtain x y where xy: "e_l = ndarray_mul x (mask (this s))" "e_r = ndarray_mul y (mask (this s))"
      using mzi_error_matrices_masked [OF r] by blast
    show "(\<exists>x y. e_l = ndarray_mul x (mask (this s)) \<and> e_r = ndarray_mul y (mask (this s))) \<and>
      (\<forall>i<length (data e_l). data (mask (this s)) ! i = 0 \<longrightarrow> data e_l ! i = 0) \<and>
      (\<forall>i<length (data e_r). data (mask (this s)) ! i = 0 \<longrightarrow> data e_r ! i = 0)"
      using xy ndarray_mul_zero by blast
  qed
  show ?thesis using a b c t d by blast
qed

text \<open>
  The theorem at the sample object: an array of the shape of the mask, an array of
  another shape, a tuple of two arrays, and a value of another type.
\<close>

theorem mzi_error_matrices_dispatch_witness:
  "fst (mzi_error_matrices sample_np_random sample_config
          \<lparr>this = sample_model (BsArray \<lparr>shape = [2, 2], data = [1, 2, 3, 4]\<rparr>) False,
           random_state = 7\<rparr>) =
     Inr (\<lparr>shape = [2, 2], data = [1, 2, 3, 0]\<rparr>, \<lparr>shape = [2, 2], data = [1, 2, 3, 0]\<rparr>) \<and>
   fst (mzi_error_matrices sample_np_random sample_config
          \<lparr>this = sample_model (BsArray \<lparr>shape = [4], data = [1, 2, 3, 4]\<rparr>) False,
           random_state = 7\<rparr>) =
     Inl (AttributeError ''bs_error.shape and mask.shape should be the same.'') \<and>
   fst (mzi_error_matrices sample_np_random sample_config
          \<lparr>this = sample_model
                    (BsTuple [ItemArray \<lparr>shape = [2, 2], data = [1, 2, 3, 4]\<rparr>,
                              ItemArray \<lparr>shape = [2, 2], data = [5, 6, 7, 8]\<rparr>]) False,
           random_state = 7\<rparr>) =
     Inr (\<lparr>shape = [2, 2], data = [1, 2, 3, 0]\<rparr>, \<lparr>shape = [2, 2], data = [5, 6, 7, 0]\<rparr>) \<and>
   fst (mzi_error_matrices sample_np_random sample_config
          \<lparr>this = sample_model BsOther False, random_state = 7\<rparr>) =
     Inl (TypeError ''bs_error must be float, ndarray or (ndarray, ndarray).'')"
proof -
  let ?a = "\<lparr>shape = [2, 2], data = [1, 2, 3, 4::real]\<rparr>"
  let ?b = "\<lparr>shape = [2, 2], data = [5, 6, 7, 8::real]\<rparr>"
  let ?c = "\<lparr>shape = [4], data = [1, 2, 3, 4::real]\<rparr>"
  have 1: "fst (mzi_error_matrices sample_np_random sample_config
          \<lparr>this = sample_model (BsArray ?a) False, random_state = 7\<rparr>) =
     Inr (\<lparr>shape = [2, 2], data = [1, 2, 3, 0]\<rparr>, \<lparr>shape = [2, 2], data = [1, 2, 3, 0]\<rparr>)"
    using mzi_error_matrices_dispatch
      [of "\<lparr>this = sample_model (BsArray ?a) False, random_state = 7\<rparr>" ?a
          sample_np_random sample_config ?b]
    by (simp add: sample_model_def ndarray_mul_def)
  have 2: "fst (mzi_error_matrices sample_np_random sample_config
          \<lparr>this = sample_model (BsArray ?c) False, random_state = 7\<rparr>) =
     Inl (AttributeError ''bs_error.shape and mask.shape should be the same.'')"
    using mzi_error_matrices_dispatch
      [of "\<lparr>this = sample_model (BsArray ?c) False, random_state = 7\<rparr>" ?c
          sample_np_random sample_config ?b]
    by (simp add: sample_model_def)
  have 3: "fst (mzi_error_matrices sample_np_random sample_config
          \<lparr>this = sample_model (BsTuple [ItemArray ?a, ItemArray ?b]) False,
           random_state = 7\<rparr>) =
     Inr (\<lparr>shape = [2, 2], data = [1, 2, 3, 0]\<rparr>, \<lparr>shape = [2, 2], data = [5, 6, 7, 0]\<rparr>)"
    using mzi_error_matrices_dispatch
      [of "\<lparr>this = sample_model (BsTuple [ItemArray ?a, ItemArray ?b]) False,
            random_state = 7\<rparr>" ?a sample_np_random sample_config ?b]
    by (simp add: sample_model_def ndarray_mul_def)
  have 4: "fst (mzi_error_matrices sample_np_random sample_config
          \<lparr>this = sample_model BsOther False, random_state = 7\<rparr>) =
     Inl (TypeError ''bs_error must be float, ndarray or (ndarray, ndarray).'')"
    using mzi_error_matrices_dispatch
      [of "\<lparr>this = sample_model BsOther False, random_state = 7\<rparr>" ?a
          sample_np_random sample_config ?b]
    by (simp add: sample_model_def)
  show ?thesis using 1 2 3 4 by simp
qed

text \<open>
  The claim as stated (a value that is neither a scalar, an array nor a pair fails with
  the type error) fails for a tuple of three arrays of the shape of the mask: it passes
  both shape tests and the unpacking raises \<^verbatim>\<open>ValueError\<close>.
\<close>

theorem tuple_of_three_counterexample:
  "fst (mzi_error_matrices sample_np_random sample_config
          \<lparr>this = sample_model
                    (BsTuple [ItemArray \<lparr>shape = [2, 2], data = [1, 2, 3, 4]\<rparr>,
                              ItemArray \<lparr>shape = [2, 2], data = [5, 6, 7, 8]\<rparr>,
                              ItemArray \<lparr>shape = [2, 2], data = [1, 2, 3, 4]\<rparr>]) False,
           random_state = 7\<rparr>) =
     Inl (ValueError ''too many values to unpack (expected 2)'')"
  by (simp add: mzi_error_matrices_def sample_model_def tuple_errors_def Let_def)

subsection \<open>Reseeding under \<open>testing\<close>\<close>

text \<open>
  Claim C5: with \<open>testing\<close> set and a scalar \<open>bs_error\<close>, any two accesses of
  \<open>mzi_error_matrices\<close> (from any two states of the random source) return the same
  \<open>(e_l, e_r)\<close>: \<open>e_l\<close> is drawn from the source seeded with the test seed, and \<open>e_r\<close> is
  drawn from the source seeded with the test seed plus one when \<open>use_different_errors\<close>
  is set and is \<open>e_l\<close> itself otherwise.
\<close>

theorem testing_scalar_reseed_determinism:
  assumes "testing (this s)" "bs_error (this s) = BsScalar x" "this s' = this s"
  shows "fst (mzi_error_matrices np cfg s') = fst (mzi_error_matrices np cfg s) \<and>
     fst (mzi_error_matrices np cfg s) =
       Inr (ndarray_mul
              (times_scalar
                 (fst (randn np (num_layers (this s)) (units (this s) div 2)
                         (seed np (TEST_SEED cfg)))) x)
              (mask (this s)),
            if use_different_errors (this s)
            then ndarray_mul
                   (times_scalar
                      (fst (randn np (num_layers (this s)) (units (this s) div 2)
                              (seed np (TEST_SEED cfg + 1)))) x)
                   (mask (this s))
            else ndarray_mul
                   (times_scalar
                      (fst (randn np (num_layers (this s)) (units (this s) div 2)
                              (seed np (TEST_SEED cfg)))) x)
                   (mask (this s)))"
proof -
  have b: "bs_error (this s') = BsScalar x" "testing (this s')" using assms by simp_all
  show ?thesis
    unfolding mzi_error_matrices_scalar [OF assms(2)] mzi_error_matrices_scalar [OF b(1)]
    using assms(1,3) by (simp add: Let_def)
qed

text \<open>
  The theorem at the sample object with \<open>bs_error = 2\<close> and different errors on the two
  sides, from the states 7 and 100 of the random source.
\<close>

theorem testing_scalar_reseed_determinism_witness:
  "fst (mzi_error_matrices sample_np_random sample_config
          \<lparr>this = sample_model (BsScalar 2) True, random_state = 7\<rparr>) =
   fst (mzi_error_matrices sample_np_random sample_config
          \<lparr>this = sample_model (BsScalar 2) True, random_state = 100\<rparr>) \<and>
   fst (mzi_error_matrices sample_np_random sample_config
          \<lparr>this = sample_model (BsScalar 2) True, random_state = 100\<rparr>) =
   Inr (\<lparr>shape = [2, 2], data = [62830, 62832, 62834, 0]\<rparr>,
        \<lparr>shape = [2, 2], data = [62832, 62834, 62836, 0]\<rparr>)"
proof -
  let ?s = "\<lparr>this = sample_model (BsScalar 2) True, random_state = 100::nat\<rparr>"
  let ?s' = "\<lparr>this = sample_model (BsScalar 2) True, random_state = 7::nat\<rparr>"
  have a: "testing (this ?s)" "bs_error (this ?s) = BsScalar 2" "this ?s' = this ?s"
    by (simp_all add: sample_model_def)
  note r = sample_randn
  note sd = sample_seed
  note t = testing_scalar_reseed_determinism [OF a, of sample_np_random sample_config]
  have v: "fst (mzi_error_matrices sample_np_random sample_config ?s) =
     Inr (\<lparr>shape = [2, 2], data = [62830, 62832, 62834, 0]\<rparr>,
          \<lparr>shape = [2, 2], data = [62832, 62834, 62836, 0]\<rparr>)"
    using t
    by (simp add: sample_model_def sd r times_scalar_def ndarray_map_def ndarray_mul_def)
  show ?thesis using t v by simp
qed

text \<open>
  Claim C9, as amended: with \<open>testing\<close> set, every access of \<open>mzi_error_matrices\<close> reseeds
  the random source before it looks at the type of \<open>bs_error\<close>, so neither the result nor
  the state of the source after the call depends on the state before it; when
  \<open>bs_error\<close> is not a scalar (an array, a pair, or a value that is refused) nothing is
  drawn and the state after the call is the freshly seeded one. That state differs from
  the state before the call exactly when the source was not already freshly seeded.
\<close>

theorem testing_reseeds_before_dispatch:
  assumes "testing (this s)"
  shows "fst (mzi_error_matrices np cfg (s\<lparr>random_state := g\<rparr>)) = fst (mzi_error_matrices np cfg s) \<and>
     random_state (snd (mzi_error_matrices np cfg (s\<lparr>random_state := g\<rparr>))) =
       random_state (snd (mzi_error_matrices np cfg s)) \<and>
     ((\<forall>x. bs_error (this s) \<noteq> BsScalar x) \<longrightarrow>
        random_state (snd (mzi_error_matrices np cfg s)) = seed np (TEST_SEED cfg) \<and>
        (random_state (snd (mzi_error_matrices np cfg s)) \<noteq> random_state s) =
          (random_state s \<noteq> seed np (TEST_SEED cfg)))"
proof -
  have "(\<forall>x. bs_error (this s) \<noteq> BsScalar x) \<longrightarrow>
        random_state (snd (mzi_error_matrices np cfg s)) = seed np (TEST_SEED cfg)"
    using mzi_error_matrices_no_draw [of s np cfg] assms by simp
  then show ?thesis using mzi_error_matrices_reseed [OF assms, of np cfg g] by auto
qed

text \<open>
  The theorem at the sample object with an error array, from the state 7 of the random
  source: the array comes back masked and the source is left at the test seed.
\<close>

theorem testing_reseeds_before_dispatch_witness:
  "fst (mzi_error_matrices sample_np_random sample_config
          \<lparr>this = sample_model (BsArray \<lparr>shape = [2, 2], data = [1, 2, 3, 4]\<rparr>) False,
           random_state = 7\<rparr>) =
     Inr (\<lparr>shape = [2, 2], data = [1, 2, 3, 0]\<rparr>, \<lparr>shape = [2, 2], data = [1, 2, 3, 0]\<rparr>) \<and>
   random_state (snd (mzi_error_matrices sample_np_random sample_config
          \<lparr>this = sample_model (BsArray \<lparr>shape = [2, 2], data = [1, 2, 3, 4]\<rparr>) False,
           random_state = 7\<rparr>)) = 31415"
proof -
  let ?m = "sample_model (BsArray \<lparr>shape = [2, 2], data = [1, 2, 3, 4]\<rparr>) False"
  let ?s = "\<lparr>this = ?m, random_state = 7::nat\<rparr>"
  have a: "testing (this ?s)" by (simp add: sample_model_def)
  have b: "\<forall>x. bs_error (this ?s) \<noteq> BsScalar x" by (simp add: sample_model_def)
  note t = testing_reseeds_before_dispatch [OF a, of sample_np_random sample_config 7]
  have "random_state (snd (mzi_error_matrices sample_np_random sample_config ?s)) = 31415"
    using t b by (simp add: sample_seed)
  moreover have "fst (mzi_error_matrices sample_np_random sample_config ?s) =
     Inr (\<lparr>shape = [2, 2], data = [1, 2, 3, 0]\<rparr>, \<lparr>shape = [2, 2], data = [1, 2, 3, 0]\<rparr>)"
    by (simp add: mzi_error_matrices_def sample_model_def ndarray_mul_def Let_def)
  ultimately show ?thesis by simp
qed

text \<open>
  The claim as stated (the state after the call differs from the state before) fails for
  the second of two accesses in a row: the first leaves the source freshly seeded, and the
  second leaves it as it finds it.
\<close>

theorem reseed_leaves_seeded_state_counterexample:
  "random_state (snd (mzi_error_matrices sample_np_random sample_config
      (snd (mzi_error_matrices sample_np_random sample_config
         \<lparr>this = sample_model (BsArray \<lparr>shape = [2, 2], data = [1, 2, 3, 4]\<rparr>) False,
          random_state = 7\<rparr>)))) =
   random_state (snd (mzi_error_matrices sample_np_random sample_config
         \<lparr>this = sample_model (BsArray \<lparr>shape = [2, 2], data = [1, 2, 3, 4]\<rparr>) False,
          random_state = 7\<rparr>))"
  by (simp add: mzi_error_matrices_def sample_model_def Let_def)


section \<open>The layouts of the topology variants\<close>

subsection \<open>Tunable counts\<close>

lemma assign_odd_length: "length (assign_odd xs v) = length xs"
  by (induction xs v rule: assign_odd.induct) simp_all

lemma assign_odd_nth:
  "i < length xs \<Longrightarrow> assign_odd xs v ! i = (if odd i then v else xs ! i)"
proof (induction xs v arbitrary: i rule: assign_odd.induct)
  case (1 x y xs v)
  show ?case
  proof (cases i)
    case 0
    then show ?thesis by simp
  next
    case (Suc j)
    show ?thesis
    proof (cases j)
      case 0
      then show ?thesis using Suc by simp
    next
      case (Suc k)
      then have "k < length xs" using \<open>i = Suc j\<close> "1.prems" by simp
      then show ?thesis using "1.IH" [of k] Suc \<open>i = Suc j\<close> by simp
    qed
  qed
qed simp_all

lemma rect_num_mzis_negative:
  "n < 0 \<Longrightarrow> rect_num_mzis u n = Inl (ValueError ''negative dimensions are not allowed'')"
  by (simp add: rect_num_mzis_def np_ones_def)

lemma astype_int32_id: "int32_range x \<Longrightarrow> astype_int32 x = x"
  by (simp add: astype_int32_def)

lemma store_int32_id: "int32_range x \<Longrightarrow> store_int32 x = x"
  by (simp add: int32_range_def store_int32_def)

lemma stored_rect_count_in_range:
  "int32_range (u div 2) \<Longrightarrow> int32_range ((u - 1) div 2) \<Longrightarrow>
     stored_rect_count u i = spec_rect_count u i"
  by (simp add: stored_rect_count_def spec_rect_count_def astype_int32_id store_int32_id)

lemma units_in_range:
  "2 \<le> u \<Longrightarrow> u < 4294967296 \<Longrightarrow> int32_range (u div 2) \<and> int32_range ((u - 1) div 2)"
  unfolding int32_range_def by linarith

lemma stored_rect_count_fun:
  "int32_range (u div 2) \<Longrightarrow> int32_range ((u - 1) div 2) \<Longrightarrow>
     stored_rect_count u = spec_rect_count u"
  by (rule ext) (rule stored_rect_count_in_range)

lemma rect_num_mzis_eq:
  assumes "0 \<le> n"
  shows "rect_num_mzis u n = Inr (map (stored_rect_count u) [0..<nat n])"
proof -
  let ?xs = "assign_odd (map (\<lambda>x. astype_int32 (x * u div 2)) (replicate (nat n) 1))
               (store_int32 ((u - 1) div 2))"
  have l: "length ?xs = nat n" by (simp add: assign_odd_length)
  have "?xs = map (stored_rect_count u) [0..<nat n]"
  proof (rule nth_equalityI)
    show "length ?xs = length (map (stored_rect_count u) [0..<nat n])" using l by simp
  next
    fix i assume "i < length ?xs"
    then have i: "i < nat n" using l by simp
    then show "?xs ! i = map (stored_rect_count u) [0..<nat n] ! i"
      by (simp add: assign_odd_nth stored_rect_count_def)
  qed
  then show ?thesis using assms by (simp add: rect_num_mzis_def np_ones_def)
qed

lemma rect_num_mzis_Inr:
  "rect_num_mzis u n = Inr xs \<Longrightarrow> 0 \<le> n \<and> xs = map (stored_rect_count u) [0..<nat n]"
  using rect_num_mzis_eq [of n u] rect_num_mzis_negative [of n u] by (cases "0 \<le> n") auto

lemma np_arange_up: "np_arange a b 1 = [a..b - 1]"
proof (rule nth_equalityI)
  show "length (np_arange a b 1) = length [a..b - 1]" by (simp add: np_arange_def)
next
  fix i assume "i < length (np_arange a b 1)"
  then have i: "i < nat (b - a)" by (simp add: np_arange_def)
  then have "a + int i \<le> b - 1" by linarith
  then show "np_arange a b 1 ! i = [a..b - 1] ! i"
    using i by (simp add: np_arange_def)
qed

lemma np_arange_down: "np_arange a b (- 1) = rev [b + 1..a]"
proof (rule nth_equalityI)
  show "length (np_arange a b (- 1)) = length (rev [b + 1..a])" by (simp add: np_arange_def)
next
  fix i assume "i < length (np_arange a b (- 1))"
  then have i: "i < nat (a - b)" by (simp add: np_arange_def)
  have l: "length [b + 1..a] = nat (a - b)" by simp
  have "rev [b + 1..a] ! i = [b + 1..a] ! (nat (a - b) - Suc i)"
    using i l by (simp add: rev_nth)
  also have "\<dots> = b + 1 + int (nat (a - b) - Suc i)"
    using i by (intro nth_upto) linarith
  also have "\<dots> = a - int i" using i by linarith
  finally show "np_arange a b (- 1) ! i = rev [b + 1..a] ! i"
    using i by (simp add: np_arange_def)
qed

lemma ceiling_half: "\<lceil>real_of_int v / 2\<rceil> = (v + 1) div 2"
  by linarith

lemma tri_num_mzis_spec: "tri_num_mzis n = spec_tri_counts n"
  by (simp add: tri_num_mzis_def spec_tri_counts_def np_arange_up np_arange_down ceiling_half)

lemma tri_num_mzis_length: "2 \<le> n \<Longrightarrow> length (tri_num_mzis n) = nat (2 * n - 3)"
  unfolding tri_num_mzis_spec by (simp add: spec_tri_counts_def)

lemma sample_grid_permutation:
  "0 \<le> n \<Longrightarrow> 0 \<le> l \<Longrightarrow>
     grid_permutation sample_helpers n l =
       Inr \<lparr>shape = [nat l + 1, nat n], data = replicate ((nat l + 1) * nat n) 0\<rparr>"
  by (simp add: sample_helpers_def)

lemma rectangular_resolved:
  assumes "2 \<le> N" "0 \<le> L" "grid_permutation h N L = Inr p" "shape p = [nat (L + 1), nat N]"
  shows "\<exists>m. MeshModel_init p (Some (map (stored_rect_count N) [0..<nat L])) kw = Inr m \<and>
             int (num_layers m) = L \<and> int (units m) = N \<and>
             num_tunable m = map (stored_rect_count N) [0..<nat L]"
proof -
  let ?nt = "map (stored_rect_count N) [0..<nat L]"
  have s: "shape p = Suc (nat L) # nat N # []" using assms(2,4) by simp
  have "2 \<le> nat N" using assms(1) by simp
  moreover have "length (case Some ?nt of Some a \<Rightarrow> a
                          | None \<Rightarrow> replicate (nat L) (int (nat N div 2))) = nat L"
    by simp
  ultimately obtain m where m: "MeshModel_init p (Some ?nt) kw = Inr m"
    using MeshModel_init_succeeds [OF s] by blast
  have "units m = nat N" "num_layers m = nat L" "num_tunable m = ?nt"
    using MeshModel_init_Inr [OF s m] by auto
  then show ?thesis using m assms(1,2) by auto
qed

lemma rectangular_init_resolved:
  assumes "L = (case num_layers_arg of None \<Rightarrow> N | Some n \<Rightarrow> if n = 0 then N else n)"
    "2 \<le> N" "0 \<le> L" "grid_permutation h N L = Inr p" "shape p = [nat (L + 1), nat N]"
  shows "\<exists>m. RectangularMeshModel_init h N num_layers_arg kw = Inr m \<and>
     int (num_layers m) = L \<and> int (units m) = N \<and>
     num_tunable m = map (stored_rect_count N) [0..<nat L]"
proof -
  have e: "(case num_layers_arg of None \<Rightarrow> N | Some n \<Rightarrow> if n \<noteq> 0 then n else N) = L"
    using assms(1) by (auto split: option.splits)
  have u: "RectangularMeshModel_init h N num_layers_arg kw =
             MeshModel_init p (Some (map (stored_rect_count N) [0..<nat L])) (grid_mesh_kwargs kw)"
    unfolding RectangularMeshModel_init_def Let_def e
    using assms(4) by (simp add: rect_num_mzis_eq [OF assms(3)])
  show ?thesis unfolding u using rectangular_resolved [OF assms(2-5)] by blast
qed

lemma prm_num_mzis_list_Inr:
  "prm_num_mzis_list u bs = Inr xs \<Longrightarrow>
     (\<forall>b\<in>set bs. 0 \<le> b) \<and> xs = map (\<lambda>b. map (stored_rect_count u) [0..<nat b]) bs"
proof (induction bs arbitrary: xs)
  case Nil
  then show ?case by simp
next
  case (Cons b bs)
  obtain x where x: "rect_num_mzis u b = Inr x"
    using Cons.prems by (cases "rect_num_mzis u b") simp_all
  obtain ys where ys: "prm_num_mzis_list u bs = Inr ys"
    using Cons.prems x by (cases "prm_num_mzis_list u bs") simp_all
  have "xs = x # ys" using Cons.prems x ys by simp
  then show ?case using Cons.IH [OF ys] rect_num_mzis_Inr [OF x] by simp
qed

lemma prm_num_mzis_list_succeeds:
  "\<forall>b\<in>set bs. 0 \<le> b \<Longrightarrow>
     prm_num_mzis_list u bs = Inr (map (\<lambda>b. map (stored_rect_count u) [0..<nat b]) bs)"
  by (induction bs) (simp_all add: rect_num_mzis_eq)

lemma block_lengths:
  "\<forall>b\<in>set bs. 0 \<le> b \<Longrightarrow>
     map (\<lambda>x. int (length x)) (map (\<lambda>b. map f [0..<nat b]) bs) = bs"
  by (induction bs) simp_all

lemma length_concat_blocks:
  "\<forall>b\<in>set bs. 0 \<le> b \<Longrightarrow>
     int (length (concat (map (\<lambda>b. map f [0..<nat b]) bs))) = sum_list bs"
  by (induction bs) simp_all

lemma prm_num_mzis_Inr:
  assumes "prm_num_mzis u bs = Inr xs"
  shows "bs \<noteq> [] \<and> (\<forall>b\<in>set bs. 0 \<le> b) \<and>
         xs = concat (map (\<lambda>b. map (stored_rect_count u) [0..<nat b]) bs) \<and>
         int (length xs) = sum_list bs"
proof -
  obtain ys where ys: "prm_num_mzis_list u bs = Inr ys"
    using assms by (cases "prm_num_mzis_list u bs") (simp_all add: prm_num_mzis_def)
  have a: "(\<forall>b\<in>set bs. 0 \<le> b)" "ys = map (\<lambda>b. map (stored_rect_count u) [0..<nat b]) bs"
    using prm_num_mzis_list_Inr [OF ys] by simp_all
  have b: "ys \<noteq> []" "xs = concat ys"
    using assms ys by (auto simp: prm_num_mzis_def np_hstack_def split: if_splits)
  have "bs \<noteq> []" using a(2) b(1) by auto
  then show ?thesis using a b length_concat_blocks [OF a(1)] by simp
qed

lemma PermutingRectangularMeshModel_init_Inr:
  assumes "PermutingRectangularMeshModel_init h cfg N t bl sf kw = Inr pm"
  shows "prm_block_sizes h N t bl sf = Inr (block_sizes pm, sampling_frequencies pm) \<and>
         prm_num_mzis N (block_sizes pm) = Inr (num_tunable (base pm))"
proof -
  obtain bs fs where r: "prm_block_sizes h N t bl sf = Inr (bs, fs)"
    using assms by (cases "prm_block_sizes h N t bl sf")
      (auto simp: PermutingRectangularMeshModel_init_def)
  obtain nm where n: "prm_num_mzis N bs = Inr nm"
    using assms r by (cases "prm_num_mzis N bs")
      (auto simp: PermutingRectangularMeshModel_init_def)
  obtain p where p: "prm_permutation h N bs fs False = Inr p"
    using assms r n by (cases "prm_permutation h N bs fs False")
      (auto simp: PermutingRectangularMeshModel_init_def)
  let ?kw = "\<lparr>kw_hadamard = pk_hadamard kw, kw_bs_error = pk_bs_error kw,
              kw_testing = False, kw_use_different_errors = False,
              kw_theta_init = pk_theta_init kw, kw_phi_init = pk_phi_init kw,
              kw_gamma_init = pk_gamma_init kw, kw_basis = BLOCH cfg\<rparr>"
  obtain m where m: "MeshModel_init p (Some nm) ?kw = Inr m"
    using assms r n p by (cases "MeshModel_init p (Some nm) ?kw")
      (auto simp: PermutingRectangularMeshModel_init_def)
  have pm: "pm = \<lparr>base = m, block_sizes = bs, sampling_frequencies = fs\<rparr>"
    using assms r n p m by (simp add: PermutingRectangularMeshModel_init_def)
  have "num_tunable m = nm"
    using m by (auto simp: MeshModel_init_def Let_def split: list.splits if_splits sum.splits)
  then show ?thesis using r n pm by simp
qed

lemma PermutingRectangularMeshModel_init_Inl:
  "prm_block_sizes h N t bl sf = Inl e \<Longrightarrow>
     PermutingRectangularMeshModel_init h cfg N t bl sf kw = Inl e"
  by (simp add: PermutingRectangularMeshModel_init_def)

lemma PermutingRectangularMeshModel_init_succeeds:
  assumes "prm_block_sizes h N t bl sf = Inr (rb, rf)" "rb \<noteq> []" "\<forall>b\<in>set rb. 0 \<le> b"
    "2 \<le> N" "prm_permutation h N rb rf False = Inr p"
    "shape p = [nat (sum_list rb + 1), nat N]"
  shows "\<exists>pm. PermutingRectangularMeshModel_init h cfg N t bl sf kw = Inr pm \<and>
           block_sizes pm = rb \<and> sampling_frequencies pm = rf \<and>
           int (num_layers (base pm)) = sum_list rb"
proof -
  let ?nt = "concat (map (\<lambda>b. map (stored_rect_count N) [0..<nat b]) rb)"
  let ?kw = "\<lparr>kw_hadamard = pk_hadamard kw, kw_bs_error = pk_bs_error kw,
              kw_testing = False, kw_use_different_errors = False,
              kw_theta_init = pk_theta_init kw, kw_phi_init = pk_phi_init kw,
              kw_gamma_init = pk_gamma_init kw, kw_basis = BLOCH cfg\<rparr>"
  have n: "prm_num_mzis N rb = Inr ?nt"
    using assms(2) by (simp add: prm_num_mzis_def prm_num_mzis_list_succeeds [OF assms(3)]
        np_hstack_def)
  have len: "int (length ?nt) = sum_list rb" using length_concat_blocks [OF assms(3)] .
  then have nonneg: "0 \<le> sum_list rb" by linarith
  have s: "shape p = Suc (nat (sum_list rb)) # nat N # []" using assms(6) nonneg by simp
  have "2 \<le> nat N" using assms(4) by simp
  moreover have "length (case Some ?nt of Some a \<Rightarrow> a
                          | None \<Rightarrow> replicate (nat (sum_list rb)) (int (nat N div 2))) =
                 nat (sum_list rb)"
    using len by simp
  ultimately obtain m where m: "MeshModel_init p (Some ?nt) ?kw = Inr m"
    using MeshModel_init_succeeds [OF s] by blast
  have "num_layers m = nat (sum_list rb)" using MeshModel_init_Inr [OF s m] by auto
  then have "int (num_layers m) = sum_list rb" using nonneg by simp
  then show ?thesis
    using assms(1,5) n m by (simp add: PermutingRectangularMeshModel_init_def)
qed

subsection \<open>The rectangular mesh\<close>

text \<open>
  Claim C6, as amended: for every \<open>N\<close> with \<open>2 \<le> N < 2^32\<close> (so that the counts fit the
  \<^verbatim>\<open>int32\<close> they are stored in), RectangularMeshModel uses \<open>L = num_layers\<close> when
  \<open>num_layers\<close> is given and is not zero, and \<open>L = N\<close> when it is unspecified or zero;
  given a grid permutation of shape \<open>(L + 1) \<times> N\<close> the construction succeeds with \<open>L\<close>
  layers, and the tunable count of every even-indexed layer is \<open>N div 2\<close> and of every
  odd-indexed layer \<open>(N - 1) div 2\<close>.
\<close>

theorem rectangular_mesh_layout:
  assumes "L = (case num_layers_arg of None \<Rightarrow> N | Some n \<Rightarrow> if n = 0 then N else n)"
    "2 \<le> N" "N < 4294967296" "0 \<le> L"
    "grid_permutation h N L = Inr p" "shape p = [nat (L + 1), nat N]"
  shows "\<exists>m. RectangularMeshModel_init h N num_layers_arg kw = Inr m \<and>
     int (num_layers m) = L \<and> int (units m) = N \<and> int (length (num_tunable m)) = L \<and>
     (\<forall>i<nat L. num_tunable m ! i = (if even i then N div 2 else (N - 1) div 2))"
proof -
  obtain m where m: "RectangularMeshModel_init h N num_layers_arg kw = Inr m"
    "int (num_layers m) = L" "int (units m) = N"
    "num_tunable m = map (stored_rect_count N) [0..<nat L]"
    using rectangular_init_resolved [OF assms(1,2,4,5,6)] by blast
  have r: "int32_range (N div 2)" "int32_range ((N - 1) div 2)"
    using units_in_range [OF assms(2,3)] by simp_all
  have "\<forall>i<nat L. num_tunable m ! i = (if even i then N div 2 else (N - 1) div 2)"
    using m(4) by (simp add: stored_rect_count_in_range [OF r] spec_rect_count_def)
  then show ?thesis using m assms(4) by auto
qed

text \<open>
  The theorem at \<open>units = 4\<close> with \<open>num_layers\<close> unspecified: four layers, with tunable
  count 2 in layer 0 and 1 in layer 1.
\<close>

theorem rectangular_mesh_layout_witness:
  "\<exists>m. RectangularMeshModel_init sample_helpers 4 None
          (RectangularMeshModel_defaults sample_config) = Inr m \<and>
       num_layers m = 4 \<and> num_tunable m ! 0 = 2 \<and> num_tunable m ! 1 = 1"
proof -
  let ?p = "\<lparr>shape = [nat 4 + 1, nat 4], data = replicate ((nat 4 + 1) * nat 4) (0::int)\<rparr>"
  have l: "(4::int) = (case None :: int option of None \<Rightarrow> 4 | Some n \<Rightarrow> if n = 0 then 4 else n)"
    by simp
  have g: "grid_permutation sample_helpers 4 4 = Inr ?p"
    using sample_grid_permutation [of 4 4] by simp
  have s: "shape ?p = [nat (4 + 1), nat 4]" by simp
  obtain m where m: "RectangularMeshModel_init sample_helpers 4 None
          (RectangularMeshModel_defaults sample_config) = Inr m"
    "int (num_layers m) = 4"
    "\<forall>i<nat 4. num_tunable m ! i = (if even i then 4 div 2 else (4 - 1) div 2)"
    using rectangular_mesh_layout [OF l _ _ _ g s, of "RectangularMeshModel_defaults sample_config"]
    by auto
  have "num_tunable m ! 0 = 2" "num_tunable m ! 1 = 1" using m(3) by simp_all
  then show ?thesis using m(1,2) by auto
qed

text \<open>
  The claim as stated (\<open>L = num_layers\<close> whenever it is given) fails for \<open>num_layers = 0\<close>:
  with \<open>units = 4\<close> the mesh has four layers, not zero.
\<close>

theorem rectangular_zero_layers_counterexample:
  "map_sum id num_layers
     (RectangularMeshModel_init sample_helpers 4 (Some 0)
        (RectangularMeshModel_defaults sample_config)) = Inr 4"
proof -
  let ?p = "\<lparr>shape = [nat 4 + 1, nat 4], data = replicate ((nat 4 + 1) * nat 4) (0::int)\<rparr>"
  have g: "grid_permutation sample_helpers 4 4 = Inr ?p"
    using sample_grid_permutation [of 4 4] by simp
  obtain m where m: "MeshModel_init ?p (Some (map (stored_rect_count 4) [0..<nat 4]))
                       (grid_mesh_kwargs (RectangularMeshModel_defaults sample_config)) = Inr m"
    "int (num_layers m) = 4"
    using rectangular_resolved [of 4 4 sample_helpers ?p] g by auto
  then show ?thesis
    using g by (simp add: RectangularMeshModel_init_def rect_num_mzis_eq)
qed

text \<open>
  Claim C10, as amended: for every \<open>N \<ge> 2\<close>, constructing RectangularMeshModel with
  \<open>num_layers = 0\<close> produces a mesh with \<open>L = N\<close> layers, given the grid permutation of
  shape \<open>(N + 1) \<times> N\<close> that it requests, exactly as if \<open>num_layers\<close> had been left
  unspecified. For every \<open>N\<close> the construction with \<open>num_layers = 0\<close> is the construction
  with \<open>num_layers\<close> unspecified, failures included: it requests the grid permutation for
  \<open>N\<close> layers, fails as that request fails, and every mesh it produces has \<open>L = N\<close>.
\<close>

theorem rectangular_zero_layers_is_default:
  "RectangularMeshModel_init h N (Some 0) kw = RectangularMeshModel_init h N None kw \<and>
   (\<forall>e. grid_permutation h N N = Inl e \<longrightarrow>
      RectangularMeshModel_init h N (Some 0) kw = Inl e) \<and>
   (\<forall>p m. grid_permutation h N N = Inr p \<longrightarrow> shape p = [nat (N + 1), nat N] \<longrightarrow>
      RectangularMeshModel_init h N (Some 0) kw = Inr m \<longrightarrow> int (num_layers m) = N) \<and>
   (\<forall>p. 2 \<le> N \<longrightarrow> grid_permutation h N N = Inr p \<longrightarrow> shape p = [nat (N + 1), nat N] \<longrightarrow>
      (\<exists>m. RectangularMeshModel_init h N (Some 0) kw = Inr m \<and> int (num_layers m) = N))"
proof -
  have a: "RectangularMeshModel_init h N (Some 0) kw = RectangularMeshModel_init h N None kw"
    by (simp add: RectangularMeshModel_init_def)
  have f: "\<forall>e. grid_permutation h N N = Inl e \<longrightarrow>
      RectangularMeshModel_init h N (Some 0) kw = Inl e"
    by (simp add: RectangularMeshModel_init_def)
  have c: "\<forall>p. 2 \<le> N \<longrightarrow> grid_permutation h N N = Inr p \<longrightarrow> shape p = [nat (N + 1), nat N] \<longrightarrow>
      (\<exists>m. RectangularMeshModel_init h N (Some 0) kw = Inr m \<and> int (num_layers m) = N)"
  proof (intro allI impI)
    fix p assume n: "2 \<le> N" and g: "grid_permutation h N N = Inr p"
      and s: "shape p = [nat (N + 1), nat N]"
    have l: "N = (case Some (0::int) of None \<Rightarrow> N | Some n \<Rightarrow> if n = 0 then N else n)" by simp
    have "0 \<le> N" using n by simp
    then show "\<exists>m. RectangularMeshModel_init h N (Some 0) kw = Inr m \<and> int (num_layers m) = N"
      using rectangular_init_resolved [OF l n _ g s, of kw] by auto
  qed
  have b: "\<forall>p m. grid_permutation h N N = Inr p \<longrightarrow> shape p = [nat (N + 1), nat N] \<longrightarrow>
      RectangularMeshModel_init h N (Some 0) kw = Inr m \<longrightarrow> int (num_layers m) = N"
  proof (intro allI impI)
    fix p m assume g: "grid_permutation h N N = Inr p" and s: "shape p = [nat (N + 1), nat N]"
      and r: "RectangularMeshModel_init h N (Some 0) kw = Inr m"
    obtain nt where r': "MeshModel_init p (Some nt) (grid_mesh_kwargs kw) = Inr m"
      using r g by (auto simp: RectangularMeshModel_init_def split: sum.splits)
    have rows: "nat (N + 1) \<noteq> 0" using r' s by (auto simp: MeshModel_init_def)
    then have n: "0 \<le> N" by simp
    have s': "shape p = Suc (nat N) # nat N # []" using s n by simp
    have "num_layers m = nat N" using MeshModel_init_Inr [OF s' r'] by auto
    then show "int (num_layers m) = N" using n by simp
  qed
  show ?thesis using a f b c by blast
qed

text \<open>The theorem at \<open>units = 4\<close>: \<open>num_layers = 0\<close> gives the four layers of the default.\<close>

theorem rectangular_zero_layers_is_default_witness:
  "RectangularMeshModel_init sample_helpers 4 (Some 0) (RectangularMeshModel_defaults sample_config) =
     RectangularMeshModel_init sample_helpers 4 None (RectangularMeshModel_defaults sample_config) \<and>
   (\<exists>m. RectangularMeshModel_init sample_helpers 4 (Some 0)
           (RectangularMeshModel_defaults sample_config) = Inr m \<and> num_layers m = 4)"
proof -
  let ?p = "\<lparr>shape = [nat 4 + 1, nat 4], data = replicate ((nat 4 + 1) * nat 4) (0::int)\<rparr>"
  have g: "grid_permutation sample_helpers 4 4 = Inr ?p"
    using sample_grid_permutation [of 4 4] by simp
  have s: "shape ?p = [nat (4 + 1), nat 4]" by simp
  note t = rectangular_zero_layers_is_default
             [of sample_helpers 4 "RectangularMeshModel_defaults sample_config"]
  have n: "2 \<le> (4::int)" by simp
  obtain m where m: "RectangularMeshModel_init sample_helpers 4 (Some 0)
           (RectangularMeshModel_defaults sample_config) = Inr m" "int (num_layers m) = 4"
    using t g s n by blast
  have "num_layers m = 4" using m(2) by simp
  then show ?thesis using t m(1) by blast
qed

text \<open>
  The claim as stated (for every \<open>N\<close> a mesh is produced and the construction never
  fails) fails for \<open>N = 1\<close>: with \<open>num_layers = 0\<close> the grid permutation for one layer is
  requested and returned, and the constructor refuses the single unit.
\<close>

theorem rectangular_one_unit_counterexample:
  "RectangularMeshModel_init sample_helpers 1 (Some 0)
     (RectangularMeshModel_defaults sample_config) =
   Inl (ValueError ''units must be at least 2.'')"
proof -
  let ?p = "\<lparr>shape = [nat 1 + 1, nat 1], data = replicate ((nat 1 + 1) * nat 1) (0::int)\<rparr>"
  have g: "grid_permutation sample_helpers 1 1 = Inr ?p"
    using sample_grid_permutation [of 1 1] by simp
  have s: "shape ?p = [Suc 1, 1]" by simp
  have n: "rect_num_mzis 1 1 = Inr (map (stored_rect_count 1) [0..<nat 1])"
    by (rule rect_num_mzis_eq) simp
  have "MeshModel_init ?p (Some (map (stored_rect_count 1) [0..<nat 1]))
          (grid_mesh_kwargs (RectangularMeshModel_defaults sample_config)) =
        Inl (ValueError ''units must be at least 2.'')"
    by (rule MeshModel_init_few_units [OF s]) simp_all
  then show ?thesis using g n by (simp add: RectangularMeshModel_init_def)
qed

subsection \<open>The triangular mesh\<close>

text \<open>
  Claim C7: for every \<open>N\<close>, given a grid permutation of shape \<open>(L + 1) \<times> N\<close> for the
  requested \<open>L = 2N - 3\<close>, every TriangularMeshModel has exactly \<open>2N - 3\<close> layers (the
  constructor has no argument for the number of layers), and its tunable counts are
  \<open>ceil(v / 2)\<close> for \<open>v\<close> in \<open>1, \<dots>, N - 1, N - 2, \<dots>, 1\<close>. A mesh exists exactly for
  \<open>N \<ge> 2\<close>.
\<close>

theorem triangular_mesh_layout:
  assumes "grid_permutation h N (2 * N - 3) = Inr p" "shape p = [nat (2 * N - 3 + 1), nat N]"
  shows "(2 \<le> N \<longrightarrow> (\<exists>m. TriangularMeshModel_init h N kw = Inr m)) \<and>
     (\<forall>m. TriangularMeshModel_init h N kw = Inr m \<longrightarrow>
        2 \<le> N \<and> int (num_layers m) = 2 * N - 3 \<and> int (units m) = N \<and>
        num_tunable m = spec_tri_counts N)"
proof -
  have u: "TriangularMeshModel_init h N kw =
             MeshModel_init p (Some (tri_num_mzis N)) (grid_mesh_kwargs kw)"
    using assms(1) by (simp add: TriangularMeshModel_init_def)
  have a: "2 \<le> N \<longrightarrow> (\<exists>m. TriangularMeshModel_init h N kw = Inr m)"
  proof
    assume n: "2 \<le> N"
    have s: "shape p = Suc (nat (2 * N - 3)) # nat N # []" using assms(2) n by simp
    have "2 \<le> nat N" using n by simp
    moreover have "length (case Some (tri_num_mzis N) of Some a \<Rightarrow> a
                            | None \<Rightarrow> replicate (nat (2 * N - 3)) (int (nat N div 2))) =
                   nat (2 * N - 3)"
      using n by (simp add: tri_num_mzis_length)
    ultimately show "\<exists>m. TriangularMeshModel_init h N kw = Inr m"
      unfolding u using MeshModel_init_succeeds [OF s] by blast
  qed
  have b: "\<forall>m. TriangularMeshModel_init h N kw = Inr m \<longrightarrow>
        2 \<le> N \<and> int (num_layers m) = 2 * N - 3 \<and> int (units m) = N \<and>
        num_tunable m = spec_tri_counts N"
  proof (intro allI impI)
    fix m assume r: "TriangularMeshModel_init h N kw = Inr m"
    then have r': "MeshModel_init p (Some (tri_num_mzis N)) (grid_mesh_kwargs kw) = Inr m"
      using u by simp
    have rows: "nat (2 * N - 3 + 1) \<noteq> 0"
      using r' assms(2) by (auto simp: MeshModel_init_def)
    then obtain l where l: "nat (2 * N - 3 + 1) = Suc l" by (cases "nat (2 * N - 3 + 1)") simp_all
    have s: "shape p = Suc l # nat N # []" using assms(2) l by simp
    have i: "units m = nat N" "num_layers m = l" "2 \<le> nat N" "num_tunable m = tri_num_mzis N"
      using MeshModel_init_Inr [OF s r'] by auto
    have n: "2 \<le> N" using i(3) by simp
    have "int l = 2 * N - 3" using l n by linarith
    then show "2 \<le> N \<and> int (num_layers m) = 2 * N - 3 \<and> int (units m) = N \<and>
        num_tunable m = spec_tri_counts N"
      using i n by (simp add: tri_num_mzis_spec)
  qed
  show ?thesis using a b by blast
qed

text \<open>The theorem at \<open>units = 5\<close>: seven layers with the counts \<open>1, 1, 2, 2, 2, 1, 1\<close>.\<close>

theorem triangular_mesh_layout_witness:
  "\<exists>m. TriangularMeshModel_init sample_helpers 5 (TriangularMeshModel_defaults sample_config) = Inr m \<and>
       num_layers m = 7 \<and> num_tunable m = [1, 1, 2, 2, 2, 1, 1]"
proof -
  let ?p = "\<lparr>shape = [nat 7 + 1, nat 5], data = replicate ((nat 7 + 1) * nat 5) (0::int)\<rparr>"
  have g: "grid_permutation sample_helpers 5 (2 * 5 - 3) = Inr ?p"
    using sample_grid_permutation [of 5 7] by simp
  have s: "shape ?p = [nat (2 * 5 - 3 + 1), nat 5]" by simp
  note t = triangular_mesh_layout [OF g s, of "TriangularMeshModel_defaults sample_config"]
  have c: "spec_tri_counts 5 = [1, 1, 2, 2, 2, 1, 1]"
    by (simp add: spec_tri_counts_def upto_rec1 ceiling_half)
  obtain m where m: "TriangularMeshModel_init sample_helpers 5
                       (TriangularMeshModel_defaults sample_config) = Inr m"
    using t by auto
  have "int (num_layers m) = 7" "num_tunable m = [1, 1, 2, 2, 2, 1, 1]"
    using t m c by auto
  then show ?thesis using m by auto
qed

subsection \<open>The permuting rectangular mesh\<close>

text \<open>
  Claim C8, as amended: the block sizes are resolved in a strict order. A given
  \<open>tunable_layers_per_block\<close> goes to the efficient heuristic whatever the lists are;
  without it the explicit lists are taken when both are given, and the default heuristic
  otherwise. The constructor fails as the resolution fails; when the resolution gives
  block sizes that are not negative and at least one block, \<open>2 \<le> N < 2^32\<close>, and the
  permutation of shape \<open>(sum of the block sizes + 1) \<times> N\<close> is returned, it constructs the mesh with
  these block sizes and sampling frequencies. In every mesh that is constructed, each
  block of size \<open>B\<close> contributes \<open>B\<close> tunable counts, stored as \<^verbatim>\<open>int32\<close>, and the length of
  the concatenated array is the sum of the block sizes; when \<open>N div 2\<close> and
  \<open>(N - 1) div 2\<close> fit \<^verbatim>\<open>int32\<close> the counts of each block alternate as in the rectangular
  mesh, \<open>N div 2\<close> and \<open>(N - 1) div 2\<close>, starting anew in each block.
\<close>

theorem permuting_rectangular_layout:
  "prm_block_sizes h N (Some t) bl sf = get_efficient_coarse_grain_block_sizes h N t \<and>
   prm_block_sizes h N None (Some bs) (Some fs) = Inr (bs, fs) \<and>
   (bl = None \<or> sf = None \<longrightarrow>
      prm_block_sizes h N None bl sf = get_default_coarse_grain_block_sizes h N) \<and>
   (\<forall>e. prm_block_sizes h N tlpb bl sf = Inl e \<longrightarrow>
      PermutingRectangularMeshModel_init h cfg N tlpb bl sf kw = Inl e) \<and>
   (\<forall>rb rf p. prm_block_sizes h N tlpb bl sf = Inr (rb, rf) \<longrightarrow> rb \<noteq> [] \<longrightarrow>
      (\<forall>b\<in>set rb. 0 \<le> b) \<longrightarrow> 2 \<le> N \<longrightarrow> N < 4294967296 \<longrightarrow>
      prm_permutation h N rb rf False = Inr p \<longrightarrow>
      shape p = [nat (sum_list rb + 1), nat N] \<longrightarrow>
      (\<exists>pm. PermutingRectangularMeshModel_init h cfg N tlpb bl sf kw = Inr pm \<and>
            block_sizes pm = rb \<and> sampling_frequencies pm = rf \<and>
            int (num_layers (base pm)) = sum_list rb)) \<and>
   (\<forall>pm. PermutingRectangularMeshModel_init h cfg N tlpb bl sf kw = Inr pm \<longrightarrow>
      prm_block_sizes h N tlpb bl sf = Inr (block_sizes pm, sampling_frequencies pm) \<and>
      (\<forall>b\<in>set (block_sizes pm). 0 \<le> b) \<and>
      (\<exists>blocks. num_tunable (base pm) = concat blocks \<and>
                map (\<lambda>x. int (length x)) blocks = block_sizes pm) \<and>
      int (length (num_tunable (base pm))) = sum_list (block_sizes pm) \<and>
      (int32_range (N div 2) \<and> int32_range ((N - 1) div 2) \<longrightarrow>
         num_tunable (base pm) =
           concat (map (\<lambda>b. map (spec_rect_count N) [0..<nat b]) (block_sizes pm))))"
proof -
  have a: "prm_block_sizes h N (Some t) bl sf = get_efficient_coarse_grain_block_sizes h N t"
    by (simp add: prm_block_sizes_def)
  have b: "prm_block_sizes h N None (Some bs) (Some fs) = Inr (bs, fs)"
    by (simp add: prm_block_sizes_def)
  have c: "bl = None \<or> sf = None \<longrightarrow>
      prm_block_sizes h N None bl sf = get_default_coarse_grain_block_sizes h N"
    by (auto simp: prm_block_sizes_def split: option.splits)
  have f: "\<forall>e. prm_block_sizes h N tlpb bl sf = Inl e \<longrightarrow>
      PermutingRectangularMeshModel_init h cfg N tlpb bl sf kw = Inl e"
    using PermutingRectangularMeshModel_init_Inl by blast
  have x: "\<forall>rb rf p. prm_block_sizes h N tlpb bl sf = Inr (rb, rf) \<longrightarrow> rb \<noteq> [] \<longrightarrow>
      (\<forall>b\<in>set rb. 0 \<le> b) \<longrightarrow> 2 \<le> N \<longrightarrow> N < 4294967296 \<longrightarrow>
      prm_permutation h N rb rf False = Inr p \<longrightarrow>
      shape p = [nat (sum_list rb + 1), nat N] \<longrightarrow>
      (\<exists>pm. PermutingRectangularMeshModel_init h cfg N tlpb bl sf kw = Inr pm \<and>
            block_sizes pm = rb \<and> sampling_frequencies pm = rf \<and>
            int (num_layers (base pm)) = sum_list rb)"
    using PermutingRectangularMeshModel_init_succeeds by blast
  have d: "\<forall>pm. PermutingRectangularMeshModel_init h cfg N tlpb bl sf kw = Inr pm \<longrightarrow>
      prm_block_sizes h N tlpb bl sf = Inr (block_sizes pm, sampling_frequencies pm) \<and>
      (\<forall>b\<in>set (block_sizes pm). 0 \<le> b) \<and>
      (\<exists>blocks. num_tunable (base pm) = concat blocks \<and>
                map (\<lambda>x. int (length x)) blocks = block_sizes pm) \<and>
      int (length (num_tunable (base pm))) = sum_list (block_sizes pm) \<and>
      (int32_range (N div 2) \<and> int32_range ((N - 1) div 2) \<longrightarrow>
         num_tunable (base pm) =
           concat (map (\<lambda>b. map (spec_rect_count N) [0..<nat b]) (block_sizes pm)))"
  proof (intro allI impI)
    fix pm assume r: "PermutingRectangularMeshModel_init h cfg N tlpb bl sf kw = Inr pm"
    note i = PermutingRectangularMeshModel_init_Inr [OF r]
    have n: "prm_num_mzis N (block_sizes pm) = Inr (num_tunable (base pm))" using i by simp
    note k = prm_num_mzis_Inr [OF n]
    have "int32_range (N div 2) \<and> int32_range ((N - 1) div 2) \<longrightarrow>
         num_tunable (base pm) =
           concat (map (\<lambda>b. map (spec_rect_count N) [0..<nat b]) (block_sizes pm))"
      using k by (simp add: stored_rect_count_fun)
    moreover have "\<exists>blocks. num_tunable (base pm) = concat blocks \<and>
                map (\<lambda>x. int (length x)) blocks = block_sizes pm"
      using k block_lengths [of "block_sizes pm" "stored_rect_count N"] by blast
    ultimately show "prm_block_sizes h N tlpb bl sf = Inr (block_sizes pm, sampling_frequencies pm) \<and>
      (\<forall>b\<in>set (block_sizes pm). 0 \<le> b) \<and>
      (\<exists>blocks. num_tunable (base pm) = concat blocks \<and>
                map (\<lambda>x. int (length x)) blocks = block_sizes pm) \<and>
      int (length (num_tunable (base pm))) = sum_list (block_sizes pm) \<and>
      (int32_range (N div 2) \<and> int32_range ((N - 1) div 2) \<longrightarrow>
         num_tunable (base pm) =
           concat (map (\<lambda>b. map (spec_rect_count N) [0..<nat b]) (block_sizes pm)))"
      using i k by blast
  qed
  show ?thesis using a b c f x d by blast
qed

text \<open>
  The theorem at \<open>units = 4\<close> on each of the three paths: \<open>tunable_layers_per_block = 2\<close>
  (the sample heuristic answers with the blocks \<open>[2, 2]\<close>) overrides the lists and gives
  the counts \<open>2, 1\<close> and \<open>2, 1\<close>; the explicit blocks \<open>[3, 2]\<close> give \<open>2, 1, 2\<close> and \<open>2, 1\<close>; a
  missing list of sampling frequencies leads to the default heuristic (the sample one
  answers with the single block \<open>[4]\<close>) and the counts \<open>2, 1, 2, 1\<close>.
\<close>

theorem permuting_rectangular_layout_witness:
  "(\<exists>pm. PermutingRectangularMeshModel_init sample_helpers sample_config 4 (Some 2)
            (Some [3, 2]) (Some [1]) PermutingRectangularMeshModel_defaults = Inr pm \<and>
         block_sizes pm = [2, 2] \<and> num_tunable (base pm) = [2, 1, 2, 1]) \<and>
   (\<exists>pm. PermutingRectangularMeshModel_init sample_helpers sample_config 4 None
            (Some [3, 2]) (Some [1]) PermutingRectangularMeshModel_defaults = Inr pm \<and>
         block_sizes pm = [3, 2] \<and> num_tunable (base pm) = [2, 1, 2, 2, 1]) \<and>
   (\<exists>pm. PermutingRectangularMeshModel_init sample_helpers sample_config 4 None
            (Some [3, 2]) None PermutingRectangularMeshModel_defaults = Inr pm \<and>
         block_sizes pm = [4] \<and> num_tunable (base pm) = [2, 1, 2, 1])"
proof -
  let ?kw = PermutingRectangularMeshModel_defaults
  have r: "int32_range (4 div 2) \<and> int32_range ((4 - 1) div 2)" by (simp add: int32_range_def)
  have n: "2 \<le> (4::int)" by simp
  have lt: "(4::int) < 4294967296" by simp
  have gen: "\<exists>pm. PermutingRectangularMeshModel_init sample_helpers sample_config 4 tl bl sf ?kw =
                  Inr pm \<and> block_sizes pm = rb \<and>
                num_tunable (base pm) =
                  concat (map (\<lambda>b. map (spec_rect_count 4) [0..<nat b]) rb)"
    if e: "prm_block_sizes sample_helpers 4 tl bl sf = Inr (rb, rf)"
      and ne: "rb \<noteq> []" and nn: "\<forall>b\<in>set rb. 0 \<le> b"
    for tl bl sf rb rf
  proof -
    note t = permuting_rectangular_layout [of sample_helpers 4 2 bl sf "[3, 2]" "[1]" tl
        sample_config ?kw]
    note x = t [THEN conjunct2, THEN conjunct2, THEN conjunct2, THEN conjunct2, THEN conjunct1,
        rule_format]
    note d = t [THEN conjunct2, THEN conjunct2, THEN conjunct2, THEN conjunct2, THEN conjunct2,
        rule_format]
    have s0: "0 \<le> sum_list rb" using nn by (simp add: sum_list_nonneg)
    let ?p = "\<lparr>shape = [nat (sum_list rb) + 1, nat 4],
               data = replicate ((nat (sum_list rb) + 1) * nat 4) (0::int)\<rparr>"
    have p: "prm_permutation sample_helpers 4 rb rf False = Inr ?p"
      using s0 by (simp add: sample_helpers_def)
    have sh: "shape ?p = [nat (sum_list rb + 1), nat 4]" using s0 by (simp add: nat_add_distrib)
    obtain pm where pm: "PermutingRectangularMeshModel_init sample_helpers sample_config 4
        tl bl sf ?kw = Inr pm" "block_sizes pm = rb"
      using x [OF e ne _ n lt p sh] nn by blast
    have "num_tunable (base pm) =
            concat (map (\<lambda>b. map (spec_rect_count 4) [0..<nat b]) (block_sizes pm))"
      using d [OF pm(1)] r by blast
    then show ?thesis using pm by blast
  qed
  have v: "concat (map (\<lambda>b. map (spec_rect_count 4) [0..<nat b]) [2, 2]) = [2, 1, 2, 1]"
    "concat (map (\<lambda>b. map (spec_rect_count 4) [0..<nat b]) [3, 2]) = [2, 1, 2, 2, 1]"
    "concat (map (\<lambda>b. map (spec_rect_count 4) [0..<nat b]) [4]) = [2, 1, 2, 1]"
    by (simp_all add: spec_rect_count_def upt_rec)
  have e1: "prm_block_sizes sample_helpers 4 (Some 2) (Some [3, 2]) (Some [1]) = Inr ([2, 2], [1])"
    by (simp add: prm_block_sizes_def sample_helpers_def)
  have e2: "prm_block_sizes sample_helpers 4 None (Some [3, 2]) (Some [1]) = Inr ([3, 2], [1])"
    by (simp add: prm_block_sizes_def)
  have e3: "prm_block_sizes sample_helpers 4 None (Some [3, 2]) None = Inr ([4], [])"
    by (simp add: prm_block_sizes_def sample_helpers_def)
  have 1: "\<exists>pm. PermutingRectangularMeshModel_init sample_helpers sample_config 4 (Some 2)
            (Some [3, 2]) (Some [1]) ?kw = Inr pm \<and>
         block_sizes pm = [2, 2] \<and> num_tunable (base pm) = [2, 1, 2, 1]"
    using gen [OF e1] v(1) by simp
  have 2: "\<exists>pm. PermutingRectangularMeshModel_init sample_helpers sample_config 4 None
            (Some [3, 2]) (Some [1]) ?kw = Inr pm \<and>
         block_sizes pm = [3, 2] \<and> num_tunable (base pm) = [2, 1, 2, 2, 1]"
    using gen [OF e2] v(2) by simp
  have 3: "\<exists>pm. PermutingRectangularMeshModel_init sample_helpers sample_config 4 None
            (Some [3, 2]) None ?kw = Inr pm \<and>
         block_sizes pm = [4] \<and> num_tunable (base pm) = [2, 1, 2, 1]"
    using gen [OF e3] v(3) by simp
  show ?thesis using 1 2 3 by blast
qed

text \<open>
  The claim as stated (the counts of every block follow the rectangular alternating
  policy, \<open>N div 2\<close> and \<open>(N - 1) div 2\<close>) fails for \<open>units = 2^32\<close>: \<open>N div 2 = 2^31\<close> does
  not fit \<^verbatim>\<open>int32\<close>, and the count that the block of two layers stores first is
  \<open>-2147483648\<close>.
\<close>

theorem permuting_counts_wrap_counterexample:
  "map_sum id (num_tunable \<circ> base)
     (PermutingRectangularMeshModel_init sample_helpers sample_config 4294967296 None
        (Some [2]) (Some []) PermutingRectangularMeshModel_defaults) =
   Inr [- 2147483648, 2147483647]"
proof -
  let ?kw = PermutingRectangularMeshModel_defaults
  have e: "prm_block_sizes sample_helpers 4294967296 None (Some [2]) (Some []) = Inr ([2], [])"
    by (simp add: prm_block_sizes_def)
  have p: "prm_permutation sample_helpers 4294967296 [2] [] False =
        Inr \<lparr>shape = [nat (sum_list [2] + 1), nat 4294967296],
             data = replicate ((nat (sum_list [2]) + 1) * nat 4294967296) 0\<rparr>"
    by (simp add: sample_helpers_def)
  obtain pm where pm: "PermutingRectangularMeshModel_init sample_helpers sample_config
      4294967296 None (Some [2]) (Some []) ?kw = Inr pm" "block_sizes pm = [2]"
    using PermutingRectangularMeshModel_init_succeeds [OF e _ _ _ p, of sample_config ?kw]
    by auto
  have "prm_num_mzis 4294967296 (block_sizes pm) = Inr (num_tunable (base pm))"
    using PermutingRectangularMeshModel_init_Inr [OF pm(1)] by simp
  then have "num_tunable (base pm) =
      concat (map (\<lambda>b. map (stored_rect_count 4294967296) [0..<nat b]) [2])"
    using prm_num_mzis_Inr pm(2) by fastforce
  also have "\<dots> = [- 2147483648, 2147483647]"
    by (simp add: stored_rect_count_def astype_int32_def store_int32_def int32_range_def upt_rec)
  finally show ?thesis using pm(1) by simp
qed

end
